theory Spec2Isabelle
  imports Complex_Main "HOL-Library.Sublist" "HOL-Library.Product_Lexorder"
    "HOL-Library.Code_Target_Nat"
begin

section \<open>Python strings\<close>

text \<open>
  A Python \<open>str\<close> is a sequence of Unicode code points, so it is modelled as a list of
  natural numbers; \<open>lit ''abc''\<close> is the literal \<open>"abc"\<close>. Code points outside ASCII are
  written as numbers (\<open>0xE4\<close> is a-umlaut, \<open>0xDF\<close> is sharp s, \<open>0xC3\<close> is A-tilde).
\<close>

type_synonym str = "nat list"

definition lit :: "string \<Rightarrow> str" where
  "lit s = map of_char s"

text \<open>\<open>a in b\<close> on strings: \<open>a\<close> occurs in \<open>b\<close> as a contiguous substring.\<close>

fun str_in :: "str \<Rightarrow> str \<Rightarrow> bool" where
  "str_in a [] = (a = [])"
| "str_in a (c # cs) = (prefix a (c # cs) \<or> str_in a cs)"

text \<open>
  \<open>s.replace(old, new)\<close>: every non-overlapping occurrence of \<open>old\<close>, scanning from the
  left, is replaced by \<open>new\<close>. For the empty \<open>old\<close> Python inserts \<open>new\<close> before every
  character and at the end.
\<close>

function repl :: "str \<Rightarrow> str \<Rightarrow> str \<Rightarrow> str" where
  "repl [] old new = []"
| "repl (c # cs) old new =
     (if old \<noteq> [] \<and> prefix old (c # cs)
      then new @ repl (drop (length old) (c # cs)) old new
      else c # repl cs old new)"
  by pat_completeness auto
termination
  by (relation "measure (\<lambda>(s, old, new). length s)") (auto simp: neq_Nil_conv)

definition replace :: "str \<Rightarrow> str \<Rightarrow> str \<Rightarrow> str" where
  "replace s old new =
     (if old = [] then new @ concat (map (\<lambda>c. c # new) s) else repl s old new)"

text \<open>
  \<open>str.lower()\<close>, given on Basic Latin and the Latin-1 Supplement (the letters \<open>A\<close>-\<open>Z\<close>
  and \<open>0xC0\<close>-\<open>0xDE\<close> without the multiplication sign \<open>0xD7\<close>); other code points are
  left as they are.
\<close>

definition lower_cp :: "nat \<Rightarrow> nat" where
  "lower_cp c =
     (if 65 \<le> c \<and> c \<le> 90 then c + 32
      else if 192 \<le> c \<and> c \<le> 222 \<and> c \<noteq> 215 then c + 32
      else c)"

definition lower :: "str \<Rightarrow> str" where
  "lower s = map lower_cp s"

text \<open>
  White space as \<open>str.strip()\<close> and \<open>str.isspace()\<close> see it, on the same two blocks:
  tab to carriage return, the separators \<open>0x1C\<close>-\<open>0x1F\<close>, space, \<open>0x85\<close> and \<open>0xA0\<close>.
\<close>

definition is_space :: "nat \<Rightarrow> bool" where
  "is_space c = ((9 \<le> c \<and> c \<le> 13) \<or> (28 \<le> c \<and> c \<le> 32) \<or> c = 133 \<or> c = 160)"

definition lstrip_ws :: "str \<Rightarrow> str" where
  "lstrip_ws s = dropWhile is_space s"

definition strip :: "str \<Rightarrow> str" where
  "strip s = rev (dropWhile is_space (rev (dropWhile is_space s)))"

text \<open>\<open>s.lstrip("0")\<close>.\<close>

definition lstrip0 :: "str \<Rightarrow> str" where
  "lstrip0 s = dropWhile (\<lambda>c. c = 48) s"

definition startswith :: "str \<Rightarrow> str \<Rightarrow> bool" where
  "startswith s p = prefix p s"

definition endswith :: "str \<Rightarrow> str \<Rightarrow> bool" where
  "endswith s p = suffix p s"

section \<open>Text and address normalisers (lookup.py)\<close>

text \<open>
  \<open>_fix_mojibake\<close>: eight two-character sequences that start with A-tilde are replaced
  by their ASCII digraph, then the replacement character \<open>U+FFFD\<close> by \<open>ss\<close>.
\<close>

definition fix_mojibake :: "str \<Rightarrow> str" where
  "fix_mojibake s0 =
     (let s = replace s0 [0xC3, 0xDF] (lit ''ss'');
          s = replace s [0xC3, 0x178] (lit ''ss'');
          s = replace s [0xC3, 0xBC] (lit ''ue'');
          s = replace s [0xC3, 0xA4] (lit ''ae'');
          s = replace s [0xC3, 0xB6] (lit ''oe'');
          s = replace s [0xC3, 0x201E] (lit ''ae'');
          s = replace s [0xC3, 0x2013] (lit ''oe'');
          s = replace s [0xC3, 0x153] (lit ''ue'')
      in if str_in [0xFFFD] s then replace s [0xFFFD] (lit ''ss'') else s)"

text \<open>The umlaut line shared by all normalisers.\<close>

definition umlauts :: "str \<Rightarrow> str" where
  "umlauts s0 =
     (let s = replace s0 [0xE4] (lit ''ae'');
          s = replace s [0xF6] (lit ''oe'');
          s = replace s [0xFC] (lit ''ue'')
      in replace s [0xDF] (lit ''ss''))"

text \<open>The street-word line of \<open>_normalize_address_token\<close>.\<close>

definition street_words :: "str \<Rightarrow> str" where
  "street_words s0 =
     (let s = replace s0 (lit ''stra'' @ [0xDF] @ lit ''e'') (lit ''str'');
          s = replace s (lit ''strasse'') (lit ''str'');
          s = replace s (lit ''strase'') (lit ''str'');
          s = replace s (lit ''strabe'') (lit ''str'')
      in replace s (lit ''str.'') (lit ''str''))"

definition separators :: "str \<Rightarrow> str" where
  "separators s0 =
     (let s = replace s0 (lit '' '') [];
          s = replace s (lit ''-'') []
      in replace s (lit ''/'') [])"

definition normalize_address_token :: "str \<Rightarrow> str" where
  "normalize_address_token s =
     separators (street_words (umlauts (lower (fix_mojibake s))))"


section \<open>Regular expressions (the fragment of \<open>re\<close> the sources use)\<close>

text \<open>
  Character classes on Basic Latin and the Latin-1 Supplement: \<open>\d\<close> is \<open>0\<close>-\<open>9\<close>, \<open>\s\<close> is
  the white space of \<open>is_space\<close>, \<open>\w\<close> is what \<open>str.isalnum\<close> accepts, and the underscore.
\<close>

definition is_digit :: "nat \<Rightarrow> bool" where
  "is_digit c = (48 \<le> c \<and> c \<le> 57)"

definition is_lower_az :: "nat \<Rightarrow> bool" where
  "is_lower_az c = (97 \<le> c \<and> c \<le> 122)"

definition is_upper_az :: "nat \<Rightarrow> bool" where
  "is_upper_az c = (65 \<le> c \<and> c \<le> 90)"

definition is_word :: "nat \<Rightarrow> bool" where
  "is_word c =
     (is_digit c \<or> is_lower_az c \<or> is_upper_az c \<or> c = 95
      \<or> c \<in> {0xAA, 0xB2, 0xB3, 0xB5, 0xB9, 0xBA, 0xBC, 0xBD, 0xBE}
      \<or> (0xC0 \<le> c \<and> c \<le> 0xFF \<and> c \<noteq> 0xD7 \<and> c \<noteq> 0xF7))"

text \<open>
  A pattern is a character class, a greedy bounded repetition of a class, a sequence, an
  ordered alternative, a capturing group, or one of the anchors \<open>\b\<close>, \<open>^\<close> and \<open>$\<close>.
  \<open>rx_at r s (i, g)\<close> lists, in the order in which a backtracking matcher tries them, the
  ways \<open>r\<close> matches \<open>s\<close> from position \<open>i\<close>: the end position and the groups captured so
  far (\<open>g\<close> extended at the right as groups close).
\<close>

datatype rx =
    Cls "nat \<Rightarrow> bool"
  | Rep nat "nat option" "nat \<Rightarrow> bool"
  | Seq rx rx
  | Alt rx rx
  | Grp rx
  | Eps
  | Bnd
  | Bol
  | Eol

definition word_at :: "str \<Rightarrow> nat \<Rightarrow> bool" where
  "word_at s i = (i < length s \<and> is_word (s ! i))"

fun rx_at :: "rx \<Rightarrow> str \<Rightarrow> nat \<times> str list \<Rightarrow> (nat \<times> str list) list" where
  "rx_at (Cls c) s (i, g) = (if i < length s \<and> c (s ! i) then [(Suc i, g)] else [])"
| "rx_at (Rep lo hi c) s (i, g) =
     (let n = length (takeWhile c (drop i s));
          m = (case hi of None \<Rightarrow> n | Some h \<Rightarrow> min h n)
      in map (\<lambda>k. (i + k, g)) (rev [lo ..< Suc m]))"
| "rx_at (Seq a b) s st = concat (map (rx_at b s) (rx_at a s st))"
| "rx_at (Alt a b) s st = rx_at a s st @ rx_at b s st"
| "rx_at (Grp a) s (i, g) =
     map (\<lambda>(j, g'). (j, g' @ [take (j - i) (drop i s)])) (rx_at a s (i, g))"
| "rx_at Eps s st = [st]"
| "rx_at Bnd s (i, g) =
     (if (0 < i \<and> word_at s (i - 1)) \<noteq> word_at s i then [(i, g)] else [])"
| "rx_at Bol s (i, g) = (if i = 0 then [(i, g)] else [])"
| "rx_at Eol s (i, g) =
     (if i = length s \<or> (Suc i = length s \<and> s ! i = 10) then [(i, g)] else [])"

text \<open>The leftmost match that starts at position \<open>i\<close> or later: start, end and groups.\<close>

fun find_from :: "rx \<Rightarrow> str \<Rightarrow> nat \<Rightarrow> nat \<Rightarrow> (nat \<times> nat \<times> str list) option" where
  "find_from r s 0 i = None"
| "find_from r s (Suc n) i =
     (case rx_at r s (i, []) of
        (j, g) # _ \<Rightarrow> Some (i, j, g)
      | [] \<Rightarrow> find_from r s n (Suc i))"

definition re_search_from :: "rx \<Rightarrow> str \<Rightarrow> nat \<Rightarrow> (nat \<times> nat \<times> str list) option" where
  "re_search_from r s i = find_from r s (Suc (length s) - i) i"

text \<open>\<open>re.search(r, s)\<close>: the groups of the leftmost match, if there is one.\<close>

definition re_search :: "rx \<Rightarrow> str \<Rightarrow> str list option" where
  "re_search r s = map_option (\<lambda>(i, j, g). g) (re_search_from r s 0)"

text \<open>
  \<open>re.finditer\<close>: the successive non-overlapping matches, left to right. After a match
  the scan resumes at its end (one further after an empty match); there are at most
  \<open>length s + 1\<close> of them.
\<close>

fun matches_from :: "rx \<Rightarrow> str \<Rightarrow> nat \<Rightarrow> nat \<Rightarrow> (nat \<times> nat \<times> str list) list" where
  "matches_from r s 0 i = []"
| "matches_from r s (Suc n) i =
     (case re_search_from r s i of
        None \<Rightarrow> []
      | Some (a, b, g) \<Rightarrow> (a, b, g) # matches_from r s n (max b (Suc a)))"

definition finditer :: "rx \<Rightarrow> str \<Rightarrow> (nat \<times> nat \<times> str list) list" where
  "finditer r s = matches_from r s (Suc (length s)) 0"

definition slice :: "str \<Rightarrow> nat \<Rightarrow> nat \<Rightarrow> str" where
  "slice s a b = take (b - a) (drop a s)"

text \<open>\<open>re.findall\<close> for a pattern without a group, and for a pattern with one group.\<close>

definition findall0 :: "rx \<Rightarrow> str \<Rightarrow> str list" where
  "findall0 r s = map (\<lambda>(a, b, g). slice s a b) (finditer r s)"

definition findall1 :: "rx \<Rightarrow> str \<Rightarrow> str list" where
  "findall1 r s = map (\<lambda>(a, b, g). case g of [] \<Rightarrow> [] | x # _ \<Rightarrow> x) (finditer r s)"

text \<open>
  \<open>re.sub(r, f, s)\<close>, with the replacement given as a function of the groups, and
  \<open>re.split(r, s)\<close> for a pattern without a group.
\<close>

fun sub_pieces :: "str \<Rightarrow> (str list \<Rightarrow> str) \<Rightarrow> nat \<Rightarrow> (nat \<times> nat \<times> str list) list \<Rightarrow> str" where
  "sub_pieces s f p [] = drop p s"
| "sub_pieces s f p ((a, b, g) # ms) = slice s p a @ f g @ sub_pieces s f b ms"

definition re_sub :: "rx \<Rightarrow> (str list \<Rightarrow> str) \<Rightarrow> str \<Rightarrow> str" where
  "re_sub r f s = sub_pieces s f 0 (finditer r s)"

fun split_pieces :: "str \<Rightarrow> nat \<Rightarrow> (nat \<times> nat \<times> str list) list \<Rightarrow> str list" where
  "split_pieces s p [] = [drop p s]"
| "split_pieces s p ((a, b, g) # ms) = slice s p a # split_pieces s b ms"

definition re_split :: "rx \<Rightarrow> str \<Rightarrow> str list" where
  "re_split r s = split_pieces s 0 (finditer r s)"

text \<open>Pattern building blocks: a literal, case-sensitive or not, and a sequence.\<close>

definition ch :: "nat \<Rightarrow> rx" where
  "ch c = Cls (\<lambda>x. x = c)"

text \<open>
  Under \<open>re.IGNORECASE\<close> a letter also matches its other case; \<open>k\<close> matches the Kelvin
  sign \<open>U+212A\<close> and \<open>s\<close> the long s \<open>U+017F\<close> as well.
\<close>

definition chi :: "nat \<Rightarrow> rx" where
  "chi c = Cls (\<lambda>x. lower_cp x = lower_cp c
                    \<or> (lower_cp c = 107 \<and> x = 0x212A) \<or> (lower_cp c = 115 \<and> x = 0x17F))"

fun seqs :: "rx list \<Rightarrow> rx" where
  "seqs [] = Eps"
| "seqs [r] = r"
| "seqs (r # rs) = Seq r (seqs rs)"

definition word_i :: "string \<Rightarrow> rx" where
  "word_i w = seqs (map chi (lit w))"

section \<open>Delivery schedule (delivery\_logic.py)\<close>

subsection \<open>Numbers as text\<close>

function str_of_nat :: "nat \<Rightarrow> str" where
  "str_of_nat n = (if n < 10 then [48 + n] else str_of_nat (n div 10) @ [48 + n mod 10])"
  by pat_completeness auto
termination
  by (relation "measure id") auto

definition str_of_int :: "int \<Rightarrow> str" where
  "str_of_int i = (if i < 0 then 45 # str_of_nat (nat (- i)) else str_of_nat (nat i))"

text \<open>The format \<open>{w:02d}\<close>: at least two characters, padded with a zero.\<close>

definition fmt_02d :: "int \<Rightarrow> str" where
  "fmt_02d i = (let t = str_of_int i in if length t < 2 then 48 # t else t)"

text \<open>\<open>int(text)\<close> on a run of the digits \<open>0\<close>-\<open>9\<close>.\<close>

definition int_of_digits :: "str \<Rightarrow> int" where
  "int_of_digits ds = foldl (\<lambda>a c. 10 * a + int (c - 48)) 0 ds"

subsection \<open>The requested week\<close>

definition kw_or_woche :: rx where
  "kw_or_woche = Alt (word_i ''KW'') (word_i ''Woche'')"

definition week_digits :: rx where
  "week_digits = Grp (Seq (Rep 0 (Some 1) (\<lambda>c. 48 \<le> c \<and> c \<le> 53)) (Cls is_digit))"

definition spaces :: rx where
  "spaces = Rep 0 None is_space"

definition year_digits :: rx where
  "year_digits = Grp (Rep 4 (Some 4) is_digit)"

definition date_sep :: rx where
  "date_sep = Rep 0 (Some 1) (\<lambda>c. c = 47 \<or> c = 46 \<or> c = 45)"

text \<open>
  The three patterns with a year and the two without, as \<open>_extract_week_year\<close> lists them:
  \<^verbatim>\<open>(?:KW|Woche)\s*([0-5]?\d)\s*[/.-]?\s*(\d{4})\<close>,
  \<^verbatim>\<open>([0-5]?\d)\s*\.?\s*(?:KW|Woche)\s*[/.-]?\s*(\d{4})\<close>,
  \<^verbatim>\<open>(?:KW\s*)?([0-5]?\d)\s*(?:/|KW)\s*(\d{4})\<close>,
  \<^verbatim>\<open>(?:KW|Woche)\s*([0-5]?\d)\b\<close> and
  \<^verbatim>\<open>\b([0-5]?\d)\s*(?:KW|Woche)\b\<close>.
\<close>

definition patterns :: "rx list" where
  "patterns =
     [seqs [kw_or_woche, spaces, week_digits, spaces, date_sep, spaces, year_digits],
      seqs [week_digits, spaces, Rep 0 (Some 1) (\<lambda>c. c = 46), spaces, kw_or_woche, spaces,
            date_sep, spaces, year_digits],
      seqs [Alt (Seq (word_i ''KW'') spaces) Eps, week_digits, spaces,
            Alt (ch 47) (word_i ''KW''), spaces, year_digits]]"

definition patterns_no_year :: "rx list" where
  "patterns_no_year =
     [seqs [kw_or_woche, spaces, week_digits, Bnd],
      seqs [Bnd, week_digits, spaces, kw_or_woche, Bnd]]"

text \<open>
  The first loop: the first pattern that matches with a week in \<open>1..53\<close> decides; a
  pattern that matches with another week is passed over.
\<close>

fun first_week_year :: "rx list \<Rightarrow> str \<Rightarrow> (int \<times> int) option" where
  "first_week_year [] text = None"
| "first_week_year (p # ps) text =
     (case re_search p text of
        Some [g1, g2] \<Rightarrow>
          (let week = int_of_digits g1; year = int_of_digits g2
           in if 1 \<le> week \<and> week \<le> 53 then Some (week, year) else first_week_year ps text)
      | _ \<Rightarrow> first_week_year ps text)"

fun first_week :: "rx list \<Rightarrow> str \<Rightarrow> int option" where
  "first_week [] text = None"
| "first_week (p # ps) text =
     (case re_search p text of
        Some [g1] \<Rightarrow>
          (let week = int_of_digits g1
           in if 1 \<le> week \<and> week \<le> 53 then Some week else first_week ps text)
      | _ \<Rightarrow> first_week ps text)"

text \<open>
  \<open>_extract_week_year\<close>. The date parser of \<open>dateutil\<close> is a parameter: \<open>parse_iso text\<close>
  is the ISO year and week of \<open>parse(text, dayfirst=True, fuzzy=True)\<close>, or \<open>None\<close> when
  the parser raises. The result is the pair (week, year).
\<close>

definition extract_week_year ::
  "(str \<Rightarrow> (int \<times> int) option) \<Rightarrow> str \<Rightarrow> int option \<Rightarrow> (int \<times> int) option" where
  "extract_week_year parse_iso text default_year =
     (if text = [] then None
      else case first_week_year patterns text of
        Some wy \<Rightarrow> Some wy
      | None \<Rightarrow>
          (case (if default_year = None \<or> default_year = Some 0 then None
                 else first_week patterns_no_year text) of
             Some week \<Rightarrow> Some (week, the default_year)
           | None \<Rightarrow>
               (case parse_iso text of
                  Some (y, w) \<Rightarrow> Some (w, y)
                | None \<Rightarrow> None)))"

subsection \<open>The two tables\<close>

text \<open>
  A table of the spreadsheet: its column labels and its rows, each with its index (the
  week) and its cells. A cell is the number \<open>float(val)\<close> gives; \<open>None\<close> is a cell that
  is empty (NaN) or not a number.
\<close>

record table =
  columns_of :: "str list"
  rows_of :: "(int \<times> (str \<Rightarrow> rat option)) list"

text \<open>
  The module's caches once \<open>_load_schedule\<close> has run: the earliest-week matrix, the run
  calendar, the map from tour names and codes to matrix columns and the map from tour
  names to schedule codes.
\<close>

record lieferlogik =
  cache_df :: "table option"
  cache_schedule_df :: "table option"
  cache_tour_map :: "(str \<rightharpoonup> str) option"
  cache_tour_code_map :: "(str \<rightharpoonup> str) option"

definition load_schedule :: "lieferlogik \<Rightarrow> table option" where
  "load_schedule L =
     (if cache_df L \<noteq> None \<and> cache_schedule_df L \<noteq> None
         \<and> cache_tour_map L \<noteq> None \<and> cache_tour_code_map L \<noteq> None
      then cache_df L else None)"

text \<open>
  \<open>schedule.at[w, col]\<close> followed by the \<open>isna\<close> test: the cell when exactly one row has
  the index and the column exists; every failure is caught and gives no value.
\<close>

definition cell_at :: "table \<Rightarrow> int \<Rightarrow> str \<Rightarrow> rat option" where
  "cell_at t w col =
     (case filter (\<lambda>(i, r). i = w) (rows_of t) of
        [(i, r)] \<Rightarrow> (if col \<in> set (columns_of t) then r col else None)
      | _ \<Rightarrow> None)"

text \<open>\<open>int(x)\<close> on a float: towards zero.\<close>

definition trunc :: "rat \<Rightarrow> int" where
  "trunc q = (if 0 \<le> q then \<lfloor>q\<rfloor> else \<lceil>q\<rceil>)"

definition get_schedule_code_for_tour :: "lieferlogik \<Rightarrow> str \<Rightarrow> str option" where
  "get_schedule_code_for_tour L tour =
     (let tour_clean = strip tour
      in case (case cache_tour_code_map L of None \<Rightarrow> None | Some m \<Rightarrow> m tour_clean) of
           Some code \<Rightarrow> Some code
         | None \<Rightarrow>
             (case cache_schedule_df L of
                Some sd \<Rightarrow> (if tour_clean \<in> set (columns_of sd) then Some tour_clean else None)
              | None \<Rightarrow> None))"

definition get_valid_tour_weeks :: "table option \<Rightarrow> str \<Rightarrow> int list" where
  "get_valid_tour_weeks schedule_df schedule_col =
     (case schedule_df of
        None \<Rightarrow> []
      | Some sd \<Rightarrow>
          if schedule_col \<notin> set (columns_of sd) then []
          else sort (remdups
                 (map fst (filter (\<lambda>(week, r). case r schedule_col of
                                                  None \<Rightarrow> False
                                                | Some v \<Rightarrow> \<not> v \<le> 0) (rows_of sd)))))"

text \<open>\<open>re.sub(r'\.\d+$', '', col)\<close>: a trailing dot with digits is cut off.\<close>

definition strip_sub_suffix :: "str \<Rightarrow> str" where
  "strip_sub_suffix col =
     re_sub (seqs [ch 46, Rep 1 None is_digit, Eol]) (\<lambda>g. []) col"

definition resolve_target_col :: "lieferlogik \<Rightarrow> table \<Rightarrow> str \<Rightarrow> str option" where
  "resolve_target_col L schedule tour_clean =
     (let c1 = (case cache_tour_map L of None \<Rightarrow> None | Some m \<Rightarrow> m tour_clean);
          c2 = (if (c1 = None \<or> c1 = Some []) \<and> tour_clean \<in> set (columns_of schedule)
                then Some tour_clean else c1);
          c3 = (if c2 = None \<or> c2 = Some []
                then find (\<lambda>col. strip_sub_suffix col = tour_clean) (columns_of schedule)
                else c2)
      in if c3 = None \<or> c3 = Some [] then None else c3)"

fun list_min :: "int list \<Rightarrow> int" where
  "list_min [] = 0"
| "list_min (x # xs) = fold min xs x"

text \<open>
  The window and the choice of the week, steps 4 and 5 of \<open>calculate_delivery_week\<close>:
  from the earliest possible week, the valid weeks and the parsed request (week, year),
  the candidate weeks.
\<close>

definition candidate_weeks :: "int \<Rightarrow> int list \<Rightarrow> (int \<times> int) option \<Rightarrow> int list" where
  "candidate_weeks earliest_possible valid_weeks req =
     (case req of
        Some (req_w, req_y) \<Rightarrow>
          (let min_allowed = max earliest_possible (req_w - 5);
               max_allowed = req_w + 1;
               cs = filter (\<lambda>w. min_allowed \<le> w \<and> w \<le> max_allowed) valid_weeks
           in if cs = [] then filter (\<lambda>w. w > max_allowed) valid_weeks else cs)
      | None \<Rightarrow> filter (\<lambda>w. w \<ge> earliest_possible) valid_weeks)"

text \<open>
  Steps 1 to 4 of \<open>calculate_delivery_week\<close>, up to the valid weeks: the order's ISO
  year, the earliest possible week read from the matrix and the weeks in which the tour
  runs; \<open>None\<close> where the function returns the empty string. \<open>parse_iso\<close> stands for the
  date parser, \<open>L\<close> for the loaded caches.
\<close>

definition schedule_inputs ::
  "(str \<Rightarrow> (int \<times> int) option) \<Rightarrow> lieferlogik \<Rightarrow> str \<Rightarrow> str
     \<Rightarrow> (int \<times> int \<times> int list) option" where
  "schedule_inputs parse_iso L order_date_str tour =
     (if order_date_str = [] \<or> tour = [] then None
      else case load_schedule L of
        None \<Rightarrow> None
      | Some schedule \<Rightarrow>
     (if cache_schedule_df L = None then None
      else case parse_iso order_date_str of
        None \<Rightarrow> None
      | Some (y_order, w_order) \<Rightarrow>
     (let tour_clean = strip tour
      in case resolve_target_col L schedule tour_clean of
        None \<Rightarrow> None
      | Some target_col \<Rightarrow>
     (case map_option trunc (cell_at schedule w_order target_col) of
        None \<Rightarrow> None
      | Some earliest_possible \<Rightarrow>
     (case get_schedule_code_for_tour L tour_clean of
        None \<Rightarrow> None
      | Some schedule_code \<Rightarrow>
     (if schedule_code = [] then None
      else let valid_weeks = get_valid_tour_weeks (cache_schedule_df L) schedule_code
      in if valid_weeks = [] then None
         else Some (y_order, earliest_possible, valid_weeks)))))))"

text \<open>
  The rest of the function, up to the formatting: the parsed request, the candidates and
  the year and week it decides on.
\<close>

definition delivery_week ::
  "(str \<Rightarrow> (int \<times> int) option) \<Rightarrow> lieferlogik \<Rightarrow> str \<Rightarrow> str \<Rightarrow> str option
     \<Rightarrow> (int \<times> int) option" where
  "delivery_week parse_iso L order_date_str tour requested_week_str =
     (case schedule_inputs parse_iso L order_date_str tour of
        None \<Rightarrow> None
      | Some (y_order, earliest_possible, valid_weeks) \<Rightarrow>
        let req = (case requested_week_str of
                     None \<Rightarrow> None
                   | Some text \<Rightarrow>
                       if text = [] then None
                       else extract_week_year parse_iso text (Some y_order));
            cs = candidate_weeks earliest_possible valid_weeks req
        in if cs = [] then None
           else Some (case req of Some (req_w, req_y) \<Rightarrow> req_y | None \<Rightarrow> y_order,
                      list_min cs))"

definition calculate_delivery_week ::
  "(str \<Rightarrow> (int \<times> int) option) \<Rightarrow> lieferlogik \<Rightarrow> str \<Rightarrow> str \<Rightarrow> str option \<Rightarrow> str" where
  "calculate_delivery_week parse_iso L order_date_str tour requested_week_str =
     (case delivery_week parse_iso L order_date_str tour requested_week_str of
        None \<Rightarrow> []
      | Some (final_y, final_w) \<Rightarrow> str_of_int final_y @ lit '' Week - '' @ fmt_02d final_w)"

subsection \<open>A schedule to run the function on\<close>

text \<open>
  Tour \<open>G2\<close> has the matrix column and schedule code \<open>2.2\<close>. For an order in week 3 the
  matrix gives \<open>earliest\<close> as the earliest possible week; the tour runs in the weeks
  \<open>runs\<close>. The order date \<open>15.01.2026\<close> lies in ISO week 3 of 2026.
\<close>

definition demo_schedule :: "int \<Rightarrow> int list \<Rightarrow> lieferlogik" where
  "demo_schedule earliest runs =
     \<lparr> cache_df = Some \<lparr> columns_of = [lit ''2.2''],
                          rows_of = [(3, \<lambda>c. if c = lit ''2.2'' then Some (of_int earliest) else None)] \<rparr>,
       cache_schedule_df = Some \<lparr> columns_of = [lit ''2.2''],
                          rows_of = map (\<lambda>w. (w, \<lambda>c. if c = lit ''2.2'' then Some 1 else None)) runs \<rparr>,
       cache_tour_map = Some [lit ''G2'' \<mapsto> lit ''2.2''],
       cache_tour_code_map = Some [lit ''G2'' \<mapsto> lit ''2.2''] \<rparr>"

definition demo_parse :: "str \<Rightarrow> (int \<times> int) option" where
  "demo_parse text = (if text = lit ''15.01.2026'' then Some (2026, 3) else None)"

section \<open>Customer registry and matching helpers (lookup.py)\<close>

subsection \<open>City, postal code and token helpers\<close>

text \<open>
  \<open>_normalize_city\<close>: the pattern \<^verbatim>\<open>\s*\(\s*(\d+)\s*\)\s*\<close> keeps the digits of a
  parenthesised district between two spaces, which the last line removes again.
\<close>

definition paren_digits :: rx where
  "paren_digits =
     seqs [spaces, ch 40, spaces, Grp (Rep 1 None is_digit), spaces, ch 41, spaces]"

definition normalize_city :: "str \<Rightarrow> str" where
  "normalize_city s0 =
     (let s = fix_mojibake s0;
          s = strip (lower s);
          s = umlauts s;
          s = replace (replace s (lit '' am '') (lit '' '')) (lit ''/'') (lit '' '');
          s = re_sub paren_digits (\<lambda>g. lit '' '' @ concat (take 1 g) @ lit '' '') s
      in replace (replace s (lit '' '') []) (lit ''-'') [])"

definition CITY_STOPWORDS :: "str list" where
  "CITY_STOPWORDS = [lit ''neu'', lit ''am'', lit ''bei'', lit ''der'', lit ''die'', lit ''das'']"

text \<open>
  \<open>_city_tokens\<close>: split at \<^verbatim>\<open>[\s/,]+\<close>, drop one leading \<open>(\<close> and one trailing \<open>)\<close>
  (\<^verbatim>\<open>^\(|\)$\<close>), keep the parts of two characters or more that are no stop words. The
  result is a set, given here as the list of its elements without repetition.
\<close>

definition city_tokens :: "str \<Rightarrow> str list" where
  "city_tokens s0 =
     (if strip s0 = [] then []
      else let s = fix_mojibake s0;
               s = strip (lower s);
               s = umlauts s;
               parts = re_split (Rep 1 None (\<lambda>c. is_space c \<or> c = 47 \<or> c = 44)) s;
               ps = map (\<lambda>p. strip (re_sub (Alt (Seq Bol (ch 40)) (Seq (ch 41) Eol)) (\<lambda>g. []) p))
                      parts
           in remdups (filter (\<lambda>p. p \<noteq> [] \<and> length p \<ge> 2 \<and> p \<notin> set CITY_STOPWORDS) ps))"

text \<open>
  The postal code with a country prefix, \<^verbatim>\<open>[A-Z]+-\s*(\d{4,5})\b\<close> under IGNORECASE
  (the class then also holds the dotted and dotless i, the long s and the Kelvin sign),
  and the bare one, \<^verbatim>\<open>\b(\d{4,5})\b\<close>.
\<close>

definition is_az_i :: "nat \<Rightarrow> bool" where
  "is_az_i c = (is_upper_az c \<or> is_lower_az c \<or> c \<in> {0x130, 0x131, 0x17F, 0x212A})"

definition plz_prefixed :: rx where
  "plz_prefixed = seqs [Rep 1 None is_az_i, ch 45, spaces, Grp (Rep 4 (Some 5) is_digit), Bnd]"

definition plz_bare :: rx where
  "plz_bare = seqs [Bnd, Grp (Rep 4 (Some 5) is_digit), Bnd]"

text \<open>\<open>max(xs, key=...)\<close>: the first element whose key is greatest.\<close>

fun max_by :: "('a \<Rightarrow> 'k::linorder) \<Rightarrow> 'a \<Rightarrow> 'a list \<Rightarrow> 'a" where
  "max_by key best [] = best"
| "max_by key best (x # xs) = max_by key (if key best < key x then x else best) xs"

text \<open>
  The postal code of an address, as \<open>find_customer_by_address\<close> and
  \<open>_extract_plz_from_address\<close> both compute it; \<open>None\<close> when there is none.
\<close>

definition extract_plz :: "str \<Rightarrow> str option" where
  "extract_plz address_str =
     (case re_search plz_prefixed address_str of
        Some g \<Rightarrow> Some (concat (take 1 g))
      | None \<Rightarrow>
          (case findall1 plz_bare address_str of
             [] \<Rightarrow> None
           | x # xs \<Rightarrow> Some (max_by (\<lambda>x. (if length x = 5 then 1 else 0 :: nat, length x)) x xs)))"

definition extract_plz_from_address :: "str \<Rightarrow> str" where
  "extract_plz_from_address address_str =
     (if address_str = [] then []
      else case extract_plz address_str of Some p \<Rightarrow> p | None \<Rightarrow> [])"

definition plz_digits_only :: "str \<Rightarrow> str" where
  "plz_digits_only plz_val =
     (if plz_val = [] then []
      else let s = replace (strip plz_val) (lit ''.0'') []
           in case re_search plz_prefixed s of
                Some g \<Rightarrow> concat (take 1 g)
              | None \<Rightarrow>
                  (let d = re_sub (Cls (\<lambda>c. \<not> is_digit c)) (\<lambda>g. []) s
                   in if d = [] then s else d))"

definition city_matches :: "str \<Rightarrow> str \<Rightarrow> bool" where
  "city_matches ort_db_val addr =
     (let tokens = city_tokens ort_db_val
      in if tokens = [] \<or> length ort_db_val < 3 then False
         else if list_all (\<lambda>t. str_in t addr) tokens then True
         else let ort_norm = normalize_city ort_db_val
              in if ort_norm \<noteq> [] \<and> str_in ort_norm addr then True
                 else if str_in (lit ''wien'') ort_norm
                 then (case re_search_from (Rep 1 None is_digit) ort_norm 0 of
                         Some (a, b, g) \<Rightarrow>
                           str_in (lit ''wien'') addr \<and> str_in (slice ort_norm a b) addr
                       | None \<Rightarrow> False)
                 else False)"

definition normalize_loose_alnum :: "str \<Rightarrow> str" where
  "normalize_loose_alnum text =
     (let t = umlauts (lower (fix_mojibake text));
          ws = findall0 (Rep 1 None (\<lambda>c. is_lower_az c \<or> is_digit c)) t
      in case ws of [] \<Rightarrow> [] | w # rest \<Rightarrow> w @ concat (map (\<lambda>x. 32 # x) rest))"

text \<open>\<open>_extract_house_number_tokens\<close> (\<^verbatim>\<open>\b\d{1,4}[a-z]?\b\<close>); a set, as a list.\<close>

definition extract_house_number_tokens :: "str \<Rightarrow> str list" where
  "extract_house_number_tokens text =
     (let t = umlauts (lower (fix_mojibake text))
      in remdups (findall0 (seqs [Bnd, Rep 1 (Some 4) is_digit,
                                  Rep 0 (Some 1) is_lower_az, Bnd]) t))"

definition street_tokens :: "str \<Rightarrow> str list" where
  "street_tokens text =
     (let s = umlauts (lower (fix_mojibake text));
          toks = findall0 (Rep 1 None (\<lambda>c. is_lower_az c \<or> is_digit c)) s;
          stop = [lit ''blvd'', lit ''str'', lit ''strasse'', lit ''street'', lit ''ul'',
                  lit ''ulitsa'', lit ''evropa'']
      in filter (\<lambda>t. length t \<ge> 3 \<and> t \<notin> set stop) toks)"

text \<open>
  \<open>_token_coverage_score\<close>. \<open>ratio a b\<close> stands for
  \<open>SequenceMatcher(None, a, b).ratio()\<close> of \<open>difflib\<close>; the score is the share of the
  registry tokens that equal an input token or are similar to one at 0.84 or more.
\<close>

fun token_best :: "(str \<Rightarrow> str \<Rightarrow> rat) \<Rightarrow> str \<Rightarrow> str list \<Rightarrow> rat \<Rightarrow> rat" where
  "token_best ratio rt [] best = best"
| "token_best ratio rt (it # its) best =
     (if rt = it then 1
      else let sim = ratio rt it in token_best ratio rt its (if sim > best then sim else best))"

definition token_coverage_score :: "(str \<Rightarrow> str \<Rightarrow> rat) \<Rightarrow> str list \<Rightarrow> str list \<Rightarrow> rat" where
  "token_coverage_score ratio row_tokens input_tokens =
     (if row_tokens = [] \<or> input_tokens = [] then 0
      else of_nat (length (filter (\<lambda>rt. token_best ratio rt input_tokens 0 \<ge> 84 / 100) row_tokens))
           / of_nat (length row_tokens))"

definition clean_kdnr :: "str \<Rightarrow> str" where
  "clean_kdnr v = (let s = strip (replace v (lit ''.0'') []) in if lstrip0 s = [] then s else lstrip0 s)"

definition kdnr_sort_value :: "str \<Rightarrow> int" where
  "kdnr_sort_value v =
     (let digits = re_sub (Cls (\<lambda>c. \<not> is_digit c)) (\<lambda>g. []) (clean_kdnr v)
      in if digits = [] then 10 ^ 9 else int_of_digits digits)"

subsection \<open>The customer registry\<close>

text \<open>
  A row of the registry gives, for a column name, the text \<open>str(cell)\<close> of its cell; its
  \<open>Verband\<close> is kept as the number \<open>pd.to_numeric(..., errors="coerce")\<close> makes of it
  (\<open>None\<close> for NaN). A frame is the list of its column names and the list of its rows, in
  registry order. \<open>cell cols r c\<close> is \<open>str(row.get(c, ""))\<close>.
\<close>

record row =
  cells :: "string \<rightharpoonup> str"
  verband :: "rat option"

record frame =
  df_columns :: "string list"
  df_rows :: "row list"

definition cell :: "string list \<Rightarrow> row \<Rightarrow> string \<Rightarrow> str" where
  "cell cols r c = (if c \<in> set cols then (case cells r c of Some v \<Rightarrow> v | None \<Rightarrow> []) else [])"

text \<open>The column idiom \<open>.astype(str).str.replace(".0", "", regex=False).str.strip()\<close>.\<close>

definition clean_cell :: "string list \<Rightarrow> row \<Rightarrow> string \<Rightarrow> str" where
  "clean_cell cols r c = strip (replace (cell cols r c) (lit ''.0'') [])"

definition VERBAND_FILTER :: "rat set" where
  "VERBAND_FILTER = {27750, 29000, 30000}"

definition MOMAX_BG_ALLOWED_KUNDENNUMMERN :: "str list" where
  "MOMAX_BG_ALLOWED_KUNDENNUMMERN =
     [lit ''68935'', lit ''68936'', lit ''68937'', lit ''68938'', lit ''68939'', lit ''68941'']"

datatype py_error = KeyError

text \<open>
  \<open>_filter_by_verband\<close>, on the rows of a frame with the given columns: \<open>None\<close> without a
  \<open>Verband\<close> column, else the rows whose \<open>Verband\<close> is one of the three.
\<close>

definition filter_by_verband :: "string list \<Rightarrow> row list \<Rightarrow> row list option" where
  "filter_by_verband cols rs =
     (if ''Verband'' \<notin> set cols then None
      else Some (filter (\<lambda>r. case verband r of None \<Rightarrow> False | Some v \<Rightarrow> v \<in> VERBAND_FILTER) rs))"

record match_result =
  kundennummer :: str
  adressnummer :: str
  tour :: str

text \<open>\<open>_clean_num\<close>, the local twin of \<open>_clean_kdnr\<close>.\<close>

definition clean_num :: "str \<Rightarrow> str" where
  "clean_num v = (let s = strip (replace v (lit ''.0'') []) in if lstrip0 s = [] then s else lstrip0 s)"

text \<open>The dictionary all three exits build from the chosen row.\<close>

definition row_result :: "string list \<Rightarrow> row \<Rightarrow> match_result" where
  "row_result cols r =
     \<lparr> kundennummer = replace (cell cols r ''Kundennummer'') (lit ''.0'') [],
       adressnummer = replace (cell cols r ''Adressnummer'') (lit ''.0'') [],
       tour = cell cols r ''Tour'' \<rparr>"

text \<open>
  \<open>_match_by_kundennummer_fallback\<close>, the lookup by the customer-number hint alone.
  \<open>hinted_rows\<close> is its \<open>kdn_subset\<close>: the rows with the hinted customer number, filtered
  by \<open>Verband\<close>. It prefers the first of them with address number 0 and falls back to the
  first of them at all.
\<close>

definition hinted_rows :: "frame \<Rightarrow> str \<Rightarrow> row list option" where
  "hinted_rows df kdnr =
     filter_by_verband (df_columns df)
       (filter (\<lambda>r. clean_num (clean_cell (df_columns df) r ''Kundennummer'') = clean_num kdnr)
          (df_rows df))"

definition zero_rows :: "string list \<Rightarrow> row list \<Rightarrow> row list" where
  "zero_rows cols rs = filter (\<lambda>r. clean_cell cols r ''Adressnummer'' = lit ''0'') rs"

definition match_by_kundennummer_fallback :: "frame \<Rightarrow> str \<Rightarrow> match_result option" where
  "match_by_kundennummer_fallback df kdnr =
     (if kdnr = [] then None
      else let cols = df_columns df
      in if ''Kundennummer'' \<notin> set cols then None
      else case hinted_rows df kdnr of
             None \<Rightarrow> None
           | Some [] \<Rightarrow> None
           | Some (k # ks) \<Rightarrow>
               (let best =
                      (if ''Adressnummer'' \<in> set cols
                       then (case zero_rows cols (k # ks) of z # zs \<Rightarrow> z | [] \<Rightarrow> k)
                       else k)
                in Some (row_result cols best)))"

text \<open>The fallback as both exits call it: only with a hint that is not empty.\<close>

definition hint_fallback :: "frame \<Rightarrow> str option \<Rightarrow> match_result option" where
  "hint_fallback df kdnr =
     (case kdnr of
        None \<Rightarrow> None
      | Some k \<Rightarrow> if k = [] then None else match_by_kundennummer_fallback df k)"

subsection \<open>The strict pass and the fuzzy pass\<close>

definition street_matches :: "str \<Rightarrow> str \<Rightarrow> bool" where
  "street_matches strasse_clean addr_clean =
     (str_in strasse_clean addr_clean
      \<or> (startswith strasse_clean (lit ''am'') \<and> length strasse_clean > 2
          \<and> str_in (drop 2 strasse_clean) addr_clean))"

text \<open>The first loop: street containment and city match on the rows long enough.\<close>

definition strict_candidates :: "string list \<Rightarrow> row list \<Rightarrow> str \<Rightarrow> row list" where
  "strict_candidates cols rows0 addr_clean =
     filter (\<lambda>r. let strasse_db = cell cols r ''Strasse''; ort_db = cell cols r ''Ort''
                 in \<not> (length strasse_db < 3 \<or> length ort_db < 3)
                    \<and> street_matches (normalize_address_token strasse_db) addr_clean
                    \<and> (str_in (normalize_city ort_db) addr_clean \<or> city_matches ort_db addr_clean))
       rows0"

text \<open>
  The second loop, with the scorer \<open>token_set_ratio\<close> of \<open>rapidfuzz\<close> as \<open>ratio\<close>: the
  score of the input against street, city and postal code of the row, 20 more when the
  postal codes agree, accepted from 70 (with a postal code in the input) or 85.
\<close>

definition fuzzy_candidates ::
  "(str \<Rightarrow> str \<Rightarrow> rat) \<Rightarrow> string list \<Rightarrow> row list \<Rightarrow> str \<Rightarrow> str option \<Rightarrow> row list" where
  "fuzzy_candidates ratio cols rows0 addr_clean plz =
     (let input_str = addr_clean @ (case plz of Some p \<Rightarrow> 32 # p | None \<Rightarrow> []);
          threshold = (if plz \<noteq> None then 70 else 85)
      in filter (\<lambda>r. let strasse_db = cell cols r ''Strasse''; ort_db = cell cols r ''Ort''
                     in \<not> (length strasse_db < 3 \<or> length ort_db < 3)
                        \<and> (let plz_db = plz_digits_only (clean_cell cols r ''Postleitzahl'');
                                row_str = normalize_address_token strasse_db @ lit '' ''
                                          @ normalize_city ort_db
                                          @ (if plz_db \<noteq> [] then 32 # plz_db else []);
                                score = ratio input_str row_str
                                        + (if plz \<noteq> None \<and> Some plz_db = plz then 20 else 0)
                            in score \<ge> threshold))
           rows0)"

subsection \<open>The tie-break cascade\<close>

text \<open>
  \<open>narrow score cands\<close> is the idiom \<open>best = scores.max(); if best > 0: cands =
  cands[scores == best]\<close>.
\<close>

definition narrow :: "(row \<Rightarrow> int) \<Rightarrow> row list \<Rightarrow> row list" where
  "narrow score cands =
     (let best = (case cands of [] \<Rightarrow> 0 | c # cs \<Rightarrow> fold max (map score cs) (score c))
      in if best > 0 then filter (\<lambda>r. score r = best) cands else cands)"

definition company_tokens :: "str \<Rightarrow> str list" where
  "company_tokens t =
     filter (\<lambda>x. x \<notin> set [lit ''gmbh'', lit ''co'', lit ''kg'', lit ''und''])
       (remdups (findall0 (Rep 1 None (\<lambda>c. is_lower_az c \<or> is_digit c))
                   (normalize_address_token t)))"

definition score_company :: "string list \<Rightarrow> str list \<Rightarrow> row \<Rightarrow> int" where
  "score_company cols iln_tokens r =
     (let cand_tokens = remdups (company_tokens (cell cols r ''Name1'')
                                 @ company_tokens (cell cols r ''Name2''));
          overlap = length (filter (\<lambda>t. t \<in> set cand_tokens) iln_tokens)
      in if overlap > 0
         then int overlap * 10
              + int (length (filter (\<lambda>t. list_ex (\<lambda>c. str_in t c) cand_tokens) iln_tokens))
         else 0)"

text \<open>
  \<open>_get_tokens\<close> and \<open>get_tokens\<close>: split at the runs of characters other than \<open>a\<close>-\<open>z\<close>,
  \<open>0\<close>-\<open>9\<close>, the three umlauts and the sharp s.
\<close>

definition get_tokens :: "str \<Rightarrow> str list" where
  "get_tokens t =
     filter (\<lambda>p. length p \<ge> 3
                \<and> p \<notin> set [lit ''gmbh'', lit ''co'', lit ''kg'', lit ''und'', lit ''der'',
                            lit ''die'', lit ''das''])
       (re_split (Rep 1 None (\<lambda>c. \<not> (is_lower_az c \<or> is_digit c
                                       \<or> c \<in> {0xE4, 0xF6, 0xFC, 0xDF}))) (lower t))"

text \<open>
  \<open>score_filiale\<close> and \<open>score_hint\<close>: the summed length of the name tokens that are a
  hint token, or, from four characters on, the end of one.
\<close>

definition score_tokens :: "string list \<Rightarrow> str list \<Rightarrow> row \<Rightarrow> int" where
  "score_tokens cols hint_tokens r =
     (let tokens = get_tokens (cell cols r ''Name1'') @ get_tokens (cell cols r ''Name2'');
          matched = remdups (filter (\<lambda>t. t \<noteq> []
                       \<and> (t \<in> set hint_tokens
                           \<or> (length t \<ge> 4 \<and> list_ex (\<lambda>ht. endswith ht t) hint_tokens))) tokens)
      in int (sum_list (map length matched)))"

definition has_joop :: "string list \<Rightarrow> row \<Rightarrow> bool" where
  "has_joop cols r =
     (let n1 = lower (cell cols r ''Name1''); n2 = lower (cell cols r ''Name2'')
      in str_in (lit ''-jo-'') n1 \<or> str_in (lit ''-jo-'') n2
         \<or> endswith n1 (lit ''-jo'') \<or> endswith n2 (lit ''-jo''))"

record hints =
  kom_name :: "str option"
  is_joop :: bool
  client_hint :: str
  iln_company :: "str option"
  iln_filiale_hint :: "str option"

definition truthy :: "str option \<Rightarrow> bool" where
  "truthy s = (s \<noteq> None \<and> s \<noteq> Some [])"

definition or_empty :: "str option \<Rightarrow> str" where
  "or_empty s = (case s of None \<Rightarrow> [] | Some v \<Rightarrow> v)"

text \<open>
  The stages after the two loops, each a narrowing of the candidates: the postal
  preference, the company hint, the branch hint, the client hint, the JOOP choice and the
  \<open>Einrichtungshaus\<close> preference.
\<close>

definition prefer_plz :: "string list \<Rightarrow> str option \<Rightarrow> row list \<Rightarrow> row list" where
  "prefer_plz cols plz candidates =
     (case plz of
        None \<Rightarrow> candidates
      | Some p \<Rightarrow>
          (let plz_matched =
                 filter (\<lambda>r. plz_digits_only (clean_cell cols r ''Postleitzahl'') = p) candidates
           in if plz_matched \<noteq> [] then plz_matched else candidates))"

definition by_company :: "string list \<Rightarrow> hints \<Rightarrow> row list \<Rightarrow> row list" where
  "by_company cols h cand_df =
     (if truthy (iln_company h) \<and> length cand_df > 1
      then (let iln_tokens = company_tokens (or_empty (iln_company h))
            in if iln_tokens \<noteq> [] then narrow (score_company cols iln_tokens) cand_df
               else cand_df)
      else cand_df)"

definition by_filiale :: "string list \<Rightarrow> hints \<Rightarrow> row list \<Rightarrow> row list" where
  "by_filiale cols h company_matched =
     (if truthy (iln_filiale_hint h) \<and> strip (or_empty (iln_filiale_hint h)) \<noteq> []
         \<and> length company_matched > 1
      then (let filiale_tokens = remdups (get_tokens (strip (or_empty (iln_filiale_hint h))))
            in if filiale_tokens \<noteq> []
               then narrow (score_tokens cols filiale_tokens) company_matched
               else company_matched)
      else company_matched)"

definition by_client_hint :: "string list \<Rightarrow> hints \<Rightarrow> row list \<Rightarrow> row list" where
  "by_client_hint cols h filiale_matched =
     (let hint_text = strip (client_hint h @ lit '' '' @ or_empty (kom_name h))
      in if hint_text \<noteq> []
         then narrow (score_tokens cols (remdups (get_tokens (lower hint_text)))) filiale_matched
         else filiale_matched)"

definition by_joop :: "string list \<Rightarrow> hints \<Rightarrow> row list \<Rightarrow> row list" where
  "by_joop cols h name_matched =
     (let joop_matches = filter (has_joop cols) name_matched;
          non_joop_matches = filter (\<lambda>r. \<not> has_joop cols r) name_matched
      in if is_joop h
         then (if joop_matches \<noteq> [] then joop_matches else name_matched)
         else (if non_joop_matches \<noteq> [] then non_joop_matches else name_matched))"

definition by_einrichtungshaus :: "string list \<Rightarrow> row list \<Rightarrow> row list" where
  "by_einrichtungshaus cols final0 =
     (if length final0 > 1
      then (let e = filter (\<lambda>r. str_in (lit ''einrichtungshaus'') (lower (cell cols r ''Name2'')))
                      final0
            in if e \<noteq> [] then e else final0)
      else final0)"

definition plz_warning :: "str \<Rightarrow> str \<Rightarrow> str" where
  "plz_warning plz plz_match =
     lit ''Customer match is not 100% identical: Postleitzahl differs (input: '' @ plz
     @ lit '', Excel: '' @ plz_match @ lit ''). Please verify.''"

text \<open>
  Everything after the two loops: the stages, the first remaining row, its address
  number, the warning and the result. Reading a column that the frame lacks raises
  \<open>KeyError\<close>: \<open>Postleitzahl\<close> in the postal preference, \<open>Name2\<close> in the last stage, and
  the three result columns. The warnings are returned as they are left.
\<close>

definition select_candidate ::
  "string list \<Rightarrow> row list \<Rightarrow> str option \<Rightarrow> hints \<Rightarrow> str list option
     \<Rightarrow> (py_error + match_result option) \<times> str list option" where
  "select_candidate cols candidates plz h warnings =
     (if plz \<noteq> None \<and> ''Postleitzahl'' \<notin> set cols then (Inl KeyError, warnings)
      else let final0 = by_joop cols h (by_client_hint cols h (by_filiale cols h
                          (by_company cols h (prefer_plz cols plz candidates))))
      in if length final0 > 1 \<and> ''Name2'' \<notin> set cols then (Inl KeyError, warnings)
      else case by_einrichtungshaus cols final0 of
           [] \<Rightarrow> (Inr None, warnings)
         | best_match # _ \<Rightarrow>
             if clean_cell cols best_match ''Adressnummer'' \<noteq> lit ''0'' then (Inr None, warnings)
             else let
               warnings' =
                 (case (warnings, plz) of
                    (Some ws, Some p) \<Rightarrow>
                      (let plz_match = plz_digits_only (clean_cell cols best_match ''Postleitzahl'')
                       in if plz_match \<noteq> p then Some (ws @ [plz_warning p plz_match]) else Some ws)
                  | _ \<Rightarrow> warnings)
             in if ''Kundennummer'' \<notin> set cols \<or> ''Adressnummer'' \<notin> set cols \<or> ''Tour'' \<notin> set cols
                then (Inl KeyError, warnings')
                else (Inr (Some (row_result cols best_match)), warnings'))"

subsection \<open>The general matcher\<close>

text \<open>
  \<open>find_customer_by_address\<close>. \<open>df\<close> is what \<open>load_data()\<close> returns, \<open>fuzz\<close> the scorer of
  \<open>rapidfuzz\<close> (\<open>None\<close> when the import failed). \<open>address_subset\<close> is the part between the
  address checks and the loops: the rows with address number 0, filtered by \<open>Verband\<close>
  and, if that leaves any, by the postal code of the input.
\<close>

definition address_subset :: "frame \<Rightarrow> str option \<Rightarrow> py_error + row list option" where
  "address_subset df plz =
     (let cols = df_columns df
      in if ''Adressnummer'' \<notin> set cols then Inl KeyError
      else case filter_by_verband cols (zero_rows cols (df_rows df)) of
             None \<Rightarrow> Inr None
           | Some rows0 \<Rightarrow>
               (case plz of
                  Some p \<Rightarrow>
                    (if ''Postleitzahl'' \<in> set cols
                     then (let rows_plz =
                                 filter (\<lambda>r. plz_digits_only (clean_cell cols r ''Postleitzahl'') = p)
                                   rows0
                           in Inr (Some (if rows_plz \<noteq> [] then rows_plz else rows0)))
                     else Inr (Some rows0))
                | None \<Rightarrow> Inr (Some rows0)))"

text \<open>The normalised address, with the normalised company of the location appended.\<close>

definition address_key :: "str \<Rightarrow> hints \<Rightarrow> str" where
  "address_key address_str h =
     normalize_address_token address_str
     @ (if truthy (iln_company h) then normalize_address_token (or_empty (iln_company h)) else [])"

definition find_customer_by_address ::
  "frame option \<Rightarrow> (str \<Rightarrow> str \<Rightarrow> rat) option \<Rightarrow> str \<Rightarrow> str option \<Rightarrow> hints \<Rightarrow> str list option
     \<Rightarrow> (py_error + match_result option) \<times> str list option" where
  "find_customer_by_address load_data fuzz address_str0 kdnr h warnings =
     (case load_data of
        None \<Rightarrow> (Inr None, warnings)
      | Some df \<Rightarrow>
          if address_str0 = [] \<or> strip address_str0 = []
          then (Inr (hint_fallback df kdnr), warnings)
          else let
            address_str = strip address_str0;
            addr_clean = address_key address_str h;
            plz = extract_plz address_str
          in case address_subset df plz of
               Inl e \<Rightarrow> (Inl e, warnings)
             | Inr None \<Rightarrow> (Inr None, warnings)
             | Inr (Some rows0) \<Rightarrow>
                 (let cols = df_columns df;
                      strict = strict_candidates cols rows0 addr_clean;
                      candidates =
                        (case fuzz of
                           Some ratio \<Rightarrow>
                             if strict = [] then fuzzy_candidates ratio cols rows0 addr_clean plz
                             else strict
                         | None \<Rightarrow> strict)
                  in if candidates = [] then (Inr (hint_fallback df kdnr), warnings)
                     else select_candidate cols candidates plz h warnings))"

text \<open>
  The candidates of the first loop as \<open>find_customer_by_address\<close> runs it: none when the
  function leaves before the loop (no address, no \<open>Verband\<close> column, or \<open>KeyError\<close>).
\<close>

definition strict_pass :: "frame \<Rightarrow> str \<Rightarrow> hints \<Rightarrow> row list" where
  "strict_pass df address_str0 h =
     (if address_str0 = [] \<or> strip address_str0 = [] then []
      else case address_subset df (extract_plz (strip address_str0)) of
             Inr (Some rows0) \<Rightarrow>
               strict_candidates (df_columns df) rows0 (address_key (strip address_str0) h)
           | _ \<Rightarrow> [])"

subsection \<open>The region-restricted matcher\<close>

text \<open>
  What the loop of \<open>find_momax_bg_customer_by_address\<close> computes for one row that passed
  the city filter: whether the street matches strictly, the two relaxed acceptances, and
  the ranking data. \<open>fuzz\<close> is the scorer of \<open>rapidfuzz\<close> (\<open>None\<close> without the library),
  \<open>ratio\<close> the similarity of \<open>difflib\<close>.
\<close>

record signals =
  strict :: bool
  fuzzy_score :: rat
  house_match :: bool
  row_house_tokens :: "str list"
  token_coverage :: rat
  fuzzy_accept :: bool
  token_accept :: bool

definition row_signals ::
  "(str \<Rightarrow> str \<Rightarrow> rat) option \<Rightarrow> (str \<Rightarrow> str \<Rightarrow> rat) \<Rightarrow> str \<Rightarrow> str \<Rightarrow> signals" where
  "row_signals fuzz ratio address_str strasse_db =
     (let addr_clean = normalize_address_token address_str;
          input_street_loose = normalize_loose_alnum address_str;
          input_house_tokens = extract_house_number_tokens address_str;
          strasse_clean = normalize_address_token strasse_db;
          sm = street_matches strasse_clean addr_clean;
          row_street_loose = normalize_loose_alnum strasse_db;
          fs = (case fuzz of
                  Some f \<Rightarrow> if input_street_loose \<noteq> [] \<and> row_street_loose \<noteq> []
                            then f input_street_loose row_street_loose else 0
                | None \<Rightarrow> 0);
          rht = extract_house_number_tokens strasse_db;
          hm = (rht \<noteq> [] \<and> input_house_tokens \<noteq> []
                \<and> list_ex (\<lambda>t. t \<in> set input_house_tokens) rht);
          tc = token_coverage_score ratio (street_tokens strasse_db) (street_tokens address_str)
      in \<lparr> strict = sm, fuzzy_score = fs, house_match = hm, row_house_tokens = rht,
           token_coverage = tc,
           fuzzy_accept = (\<not> sm \<and> fuzz \<noteq> None \<and> (fs \<ge> 78 \<or> (hm \<and> fs \<ge> 70))),
           token_accept = (\<not> sm \<and> tc \<ge> 75 / 100 \<and> (hm \<or> rht = [])) \<rparr>)"

text \<open>The row is kept when one of the three holds.\<close>

definition admitted :: "signals \<Rightarrow> bool" where
  "admitted g = (\<not> (\<not> strict g \<and> \<not> fuzzy_accept g \<and> \<not> token_accept g))"

record candidate =
  cand_row :: row
  cand_strict :: bool
  cand_plz_exact :: bool
  cand_house_match :: bool
  cand_fuzzy_score :: rat
  cand_kdnr_sort :: int

definition momax_candidate ::
  "(str \<Rightarrow> str \<Rightarrow> rat) option \<Rightarrow> (str \<Rightarrow> str \<Rightarrow> rat) \<Rightarrow> string list \<Rightarrow> str \<Rightarrow> row
     \<Rightarrow> candidate option" where
  "momax_candidate fuzz ratio cols address_str r =
     (let strasse_db = cell cols r ''Strasse''; ort_db = cell cols r ''Ort''
      in if length strasse_db < 3 \<or> length ort_db < 3 then None
      else let addr_clean = normalize_address_token address_str;
               ort_clean = normalize_city ort_db
      in if \<not> (ort_clean \<noteq> [] \<and> (str_in ort_clean addr_clean \<or> city_matches ort_db addr_clean))
         then None
      else let g = row_signals fuzz ratio address_str strasse_db
      in if \<not> admitted g then None
      else let input_plz = extract_plz_from_address address_str;
               plz_db = plz_digits_only (clean_cell cols r ''Postleitzahl'')
      in Some \<lparr> cand_row = r,
                cand_strict = strict g,
                cand_plz_exact = (input_plz \<noteq> [] \<and> plz_db = input_plz),
                cand_house_match = house_match g,
                cand_fuzzy_score = (if fuzz \<noteq> None then fuzzy_score g else token_coverage g * 100),
                cand_kdnr_sort = kdnr_sort_value (cell cols r ''Kundennummer'') \<rparr>)"

definition sort_key_of :: "candidate \<Rightarrow> nat \<times> nat \<times> nat \<times> rat \<times> int" where
  "sort_key_of c =
     (if cand_strict c then 0 else 1, if cand_plz_exact c then 0 else 1,
      if cand_house_match c then 0 else 1, - cand_fuzzy_score c, cand_kdnr_sort c)"

text \<open>The rows the loop runs over: address number 0, \<open>Verband\<close>, and the allowlist.\<close>

definition momax_subset :: "frame \<Rightarrow> row list" where
  "momax_subset df =
     (let cols = df_columns df
      in case filter_by_verband cols (zero_rows cols (df_rows df)) of
           None \<Rightarrow> []
         | Some rows0 \<Rightarrow>
             filter (\<lambda>r. clean_kdnr (clean_cell cols r ''Kundennummer'')
                          \<in> set (map clean_kdnr MOMAX_BG_ALLOWED_KUNDENNUMMERN)) rows0)"

definition find_momax_bg_customer_by_address ::
  "frame option \<Rightarrow> (str \<Rightarrow> str \<Rightarrow> rat) option \<Rightarrow> (str \<Rightarrow> str \<Rightarrow> rat) \<Rightarrow> str
     \<Rightarrow> match_result option" where
  "find_momax_bg_customer_by_address load_data fuzz ratio address_str0 =
     (case load_data of
        None \<Rightarrow> None
      | Some df \<Rightarrow>
          let cols = df_columns df
          in if address_str0 = [] \<or> strip address_str0 = [] then None
          else if ''Adressnummer'' \<notin> set cols \<or> ''Kundennummer'' \<notin> set cols then None
          else if momax_subset df = [] then None
          else let address_str = strip address_str0;
                   candidates = List.map_filter (momax_candidate fuzz ratio cols address_str)
                                  (momax_subset df)
          in case sort_key sort_key_of candidates of
               [] \<Rightarrow> None
             | best # _ \<Rightarrow>
                 Some \<lparr> kundennummer = clean_cell cols (cand_row best) ''Kundennummer'',
                        adressnummer = clean_cell cols (cand_row best) ''Adressnummer'',
                        tour = strip (cell cols (cand_row best) ''Tour'') \<rparr>)"

subsection \<open>The customer number of a location identifier\<close>

text \<open>
  \<open>iln_candidate\<close> is the candidate \<open>find_kundennummer_by_iln\<close> derives: the last five
  digits of the cleaned identifier (all of them when there are four), \<open>None\<close> when the
  identifier is empty or has fewer than four digits.
\<close>

definition iln_digits :: "str \<Rightarrow> str" where
  "iln_digits iln_value =
     re_sub (Cls (\<lambda>c. \<not> is_digit c)) (\<lambda>g. []) (replace (strip iln_value) (lit ''.0'') [])"

definition iln_candidate :: "str \<Rightarrow> str option" where
  "iln_candidate iln_value =
     (if iln_value = [] then None
      else let iln_clean = replace (strip iln_value) (lit ''.0'') []
      in if iln_clean = [] then None
      else let digits = iln_digits iln_value
      in if length digits < 4 then None
      else let candidate = (if length digits \<ge> 5 then drop (length digits - 5) digits else digits);
               candidate_stripped = (if lstrip0 candidate = [] then candidate else lstrip0 candidate)
      in if candidate_stripped = [] then None else Some candidate)"

text \<open>The rows that verify a candidate: the same cleaned customer number, and \<open>Verband\<close>.\<close>

definition verified_rows :: "frame \<Rightarrow> str \<Rightarrow> row list option" where
  "verified_rows df candidate =
     filter_by_verband (df_columns df)
       (filter (\<lambda>r. clean_num (clean_cell (df_columns df) r ''Kundennummer'') = clean_num candidate)
          (df_rows df))"

definition find_kundennummer_by_iln :: "frame option \<Rightarrow> str \<Rightarrow> str option" where
  "find_kundennummer_by_iln load_data iln_value =
     (case load_data of
        None \<Rightarrow> None
      | Some df_primex \<Rightarrow>
          (case iln_candidate iln_value of
             None \<Rightarrow> None
           | Some candidate \<Rightarrow>
               if ''Kundennummer'' \<notin> set (df_columns df_primex) then None
               else case verified_rows df_primex candidate of
                      None \<Rightarrow> None
                    | Some [] \<Rightarrow> None
                    | Some (first # _) \<Rightarrow>
                        (let kdnr = clean_cell (df_columns df_primex) first ''Kundennummer''
                         in if kdnr \<noteq> [] then Some kdnr else None)))"

subsection \<open>A small registry to run the matchers on\<close>

definition mk_row :: "(string \<times> string) list \<Rightarrow> rat option \<Rightarrow> row" where
  "mk_row kvs v = \<lparr> cells = map_of (map (\<lambda>(k, x). (k, lit x)) kvs), verband = v \<rparr>"

definition all_columns :: "string list" where
  "all_columns = [''Kundennummer'', ''Name1'', ''Name2'', ''Name3'', ''Strasse'', ''Ort'',
                  ''Postleitzahl'', ''Adressnummer'', ''Tour'', ''Verband'']"

definition demo_row_muenchen :: row where
  "demo_row_muenchen =
     mk_row [(''Kundennummer'', ''27566''), (''Name1'', ''XXXLutz KG''),
             (''Name2'', ''Einrichtungshaus''), (''Strasse'', ''Hauptstr 5''),
             (''Ort'', ''Muenchen''), (''Postleitzahl'', ''80331''),
             (''Adressnummer'', ''0''), (''Tour'', ''G2'')] (Some 27750)"

definition demo_row_kiel :: row where
  "demo_row_kiel =
     mk_row [(''Kundennummer'', ''123''), (''Name1'', ''Lager Nord''),
             (''Name2'', ''''), (''Strasse'', ''Am Hafen 3''),
             (''Ort'', ''Kiel''), (''Postleitzahl'', ''24103''),
             (''Adressnummer'', ''1''), (''Tour'', ''T1'')] (Some 29000)"

definition demo_row_sofia :: row where
  "demo_row_sofia =
     mk_row [(''Kundennummer'', ''68935''), (''Name1'', ''Momax Sofia''),
             (''Name2'', ''''), (''Strasse'', ''Okolovrasten pat''),
             (''Ort'', ''Sofia''), (''Postleitzahl'', ''1000''),
             (''Adressnummer'', ''0''), (''Tour'', ''BG1'')] (Some 30000)"

definition demo_frame :: frame where
  "demo_frame =
     \<lparr> df_columns = all_columns,
       df_rows = [demo_row_muenchen, demo_row_kiel, demo_row_sofia] \<rparr>"

text \<open>The registry without the region's customer.\<close>

definition demo_frame_de :: frame where
  "demo_frame_de = \<lparr> df_columns = all_columns, df_rows = [demo_row_muenchen, demo_row_kiel] \<rparr>"

text \<open>A similarity that finds nothing alike, and hints that say nothing.\<close>

definition no_similarity :: "str \<Rightarrow> str \<Rightarrow> rat" where
  "no_similarity a b = 0"

definition no_hints :: hints where
  "no_hints = \<lparr> kom_name = None, is_joop = False, client_hint = [], iln_company = None,
                iln_filiale_hint = None \<rparr>"

text \<open>A scorer that finds everything alike.\<close>

definition all_similar :: "str \<Rightarrow> str \<Rightarrow> rat" where
  "all_similar a b = 100"

text \<open>A registry whose only row has its address number written with a leading space.\<close>

definition demo_row_ulm :: row where
  "demo_row_ulm =
     mk_row [(''Kundennummer'', ''555''), (''Name1'', ''Moebel Ulm''),
             (''Name2'', ''''), (''Strasse'', ''Ringweg 7''),
             (''Ort'', ''Ulm''), (''Postleitzahl'', ''89073''),
             (''Adressnummer'', '' 0''), (''Tour'', ''U1'')] (Some 27750)"

definition demo_frame_ulm :: frame where
  "demo_frame_ulm = \<lparr> df_columns = all_columns, df_rows = [demo_row_ulm] \<rparr>"

section \<open>The AI-assisted fallback (ai\_customer\_match.py)\<close>

subsection \<open>Floats and parsed JSON\<close>















subsection \<open>The header and the write-back\<close>










subsection \<open>A reply to run the function on\<close>




section \<open>Facts about replacement\<close>

lemma prefix_set_subset: "prefix a b \<Longrightarrow> set a \<subseteq> set b"
  by (auto simp: prefix_def)

lemma str_in_set_subset: "str_in a b \<Longrightarrow> set a \<subseteq> set b"
proof (induction b)
  case Nil
  then show ?case by simp
next
  case (Cons c cs)
  from Cons.prems have "prefix a (c # cs) \<or> str_in a cs" by simp
  then show ?case
  proof
    assume "prefix a (c # cs)"
    then show ?thesis by (rule prefix_set_subset)
  next
    assume "str_in a cs"
    then have "set a \<subseteq> set cs" by (rule Cons.IH)
    then show ?thesis by auto
  qed
qed

lemma repl_absent: "\<not> str_in old s \<Longrightarrow> repl s old new = s"
  by (induction s) auto

lemma replace_absent: "old \<noteq> [] \<Longrightarrow> \<not> str_in old s \<Longrightarrow> replace s old new = s"
  by (simp add: replace_def repl_absent)

lemma replace_missing_char:
  "c \<in> set old \<Longrightarrow> c \<notin> set s \<Longrightarrow> replace s old new = s"
proof -
  assume c: "c \<in> set old" and n: "c \<notin> set s"
  from c have ne: "old \<noteq> []" by auto
  from c n have "\<not> set old \<subseteq> set s" by auto
  then have "\<not> str_in old s" using str_in_set_subset by blast
  with ne show ?thesis by (rule replace_absent)
qed

lemma set_repl: "set (repl s old new) \<subseteq> set s \<union> set new"
proof (induction s old new rule: repl.induct)
  case (1 old new)
  show ?case by simp
next
  case (2 c cs old new)
  show ?case
  proof (cases "old \<noteq> [] \<and> prefix old (c # cs)")
    case True
    have "set (drop (length old) (c # cs)) \<subseteq> set (c # cs)"
      by (rule set_drop_subset)
    with True 2(1) show ?thesis by auto
  next
    case False
    with 2(2) show ?thesis by auto
  qed
qed

lemma set_replace: "old \<noteq> [] \<Longrightarrow> set (replace s old new) \<subseteq> set s \<union> set new"
  by (simp add: replace_def set_repl)

lemma repl_removes_char: "c \<notin> set new \<Longrightarrow> c \<notin> set (repl s [c] new)"
  by (induction s "[c]" new rule: repl.induct) auto

lemma replace_removes_char: "c \<notin> set new \<Longrightarrow> c \<notin> set (replace s [c] new)"
  by (simp add: replace_def repl_removes_char)



lemma str_in_single: "str_in [c] s \<longleftrightarrow> c \<in> set s"
  by (induction s) auto

lemma fix_mojibake_no_fffd: "0xFFFD \<notin> set (fix_mojibake s)"
proof -
  have "\<And>t. 0xFFFD \<notin> set (if str_in [0xFFFD] t then replace t [0xFFFD] (lit ''ss'') else t)"
    using replace_removes_char [of "0xFFFD" "lit ''ss''"]
    by (simp add: str_in_single lit_def)
  then show ?thesis by (simp add: fix_mojibake_def Let_def del: str_in.simps)
qed

lemma lower_cp_idem: "lower_cp (lower_cp c) = lower_cp c"
  by (simp add: lower_cp_def)

lemma lower_chars: "c \<in> set (lower s) \<Longrightarrow> lower_cp c = c"
  by (auto simp: lower_def lower_cp_idem)

lemma lower_no_fffd: "0xFFFD \<notin> set s \<Longrightarrow> 0xFFFD \<notin> set (lower s)"
  by (auto simp: lower_def lower_cp_def split: if_splits)

lemma umlauts_chars:
  assumes "c \<in> set (umlauts s)"
  shows "(c \<in> set s \<or> c \<in> set (lit ''aeous'')) \<and> c \<notin> {0xE4, 0xF6, 0xFC, 0xDF}"
proof -
  define s1 where "s1 = replace s [0xE4] (lit ''ae'')"
  define s2 where "s2 = replace s1 [0xF6] (lit ''oe'')"
  define s3 where "s3 = replace s2 [0xFC] (lit ''ue'')"
  define s4 where "s4 = replace s3 [0xDF] (lit ''ss'')"
  have u: "umlauts s = s4"
    by (simp add: umlauts_def s1_def s2_def s3_def s4_def Let_def)
  have a1: "set s1 \<subseteq> set s \<union> set (lit ''ae'')" unfolding s1_def by (rule set_replace) simp
  have a2: "set s2 \<subseteq> set s1 \<union> set (lit ''oe'')" unfolding s2_def by (rule set_replace) simp
  have a3: "set s3 \<subseteq> set s2 \<union> set (lit ''ue'')" unfolding s3_def by (rule set_replace) simp
  have a4: "set s4 \<subseteq> set s3 \<union> set (lit ''ss'')" unfolding s4_def by (rule set_replace) simp
  have r1: "0xE4 \<notin> set s1" unfolding s1_def by (rule replace_removes_char) (simp add: lit_def)
  have r2: "0xF6 \<notin> set s2" unfolding s2_def by (rule replace_removes_char) (simp add: lit_def)
  have r3: "0xFC \<notin> set s3" unfolding s3_def by (rule replace_removes_char) (simp add: lit_def)
  have r4: "0xDF \<notin> set s4" unfolding s4_def by (rule replace_removes_char) (simp add: lit_def)
  from assms u have c: "c \<in> set s4" by simp
  have l: "set (lit ''ae'') \<union> set (lit ''oe'') \<union> set (lit ''ue'') \<union> set (lit ''ss'') \<subseteq> set (lit ''aeous'')"
    by (simp add: lit_def)
  have n: "\<And>x. x \<in> set (lit ''aeous'') \<Longrightarrow> x \<notin> {0xE4, 0xF6, 0xFC, 0xDF}"
    by (auto simp: lit_def)
  from c a1 a2 a3 a4 l have "c \<in> set s \<or> c \<in> set (lit ''aeous'')" by blast
  moreover have "c \<noteq> 0xE4" using c a2 a3 a4 r1 by (force simp: lit_def)
  moreover have "c \<noteq> 0xF6" using c a3 a4 r2 by (force simp: lit_def)
  moreover have "c \<noteq> 0xFC" using c a4 r3 by (force simp: lit_def)
  moreover have "c \<noteq> 0xDF" using c r4 by auto
  ultimately show ?thesis by simp
qed

lemma street_words_chars: "set (street_words s) \<subseteq> set s \<union> set (lit ''str'')"
proof -
  have step: "\<And>t old. old \<noteq> [] \<Longrightarrow> set t \<subseteq> set s \<union> set (lit ''str'')
      \<Longrightarrow> set (replace t old (lit ''str'')) \<subseteq> set s \<union> set (lit ''str'')"
    using set_replace by blast
  show ?thesis
    unfolding street_words_def Let_def
    by (intro step) (auto simp: lit_def)
qed

lemma separators_chars: "set (separators s) \<subseteq> set s - {32, 45, 47}"
proof -
  define s1 where "s1 = replace s (lit '' '') []"
  define s2 where "s2 = replace s1 (lit ''-'') []"
  define s3 where "s3 = replace s2 (lit ''/'') []"
  have u: "separators s = s3"
    by (simp add: separators_def s1_def s2_def s3_def Let_def)
  have a1: "set s1 \<subseteq> set s" using set_replace [of "lit '' ''" s "[]"] by (simp add: s1_def lit_def)
  have a2: "set s2 \<subseteq> set s1" using set_replace [of "lit ''-''" s1 "[]"] by (simp add: s2_def lit_def)
  have a3: "set s3 \<subseteq> set s2" using set_replace [of "lit ''/''" s2 "[]"] by (simp add: s3_def lit_def)
  have r1: "32 \<notin> set s1" using replace_removes_char [of 32 "[]" s] by (simp add: s1_def lit_def)
  have r2: "45 \<notin> set s2" using replace_removes_char [of 45 "[]" s1] by (simp add: s2_def lit_def)
  have r3: "47 \<notin> set s3" using replace_removes_char [of 47 "[]" s2] by (simp add: s3_def lit_def)
  from a1 a2 a3 r1 r2 r3 show ?thesis unfolding u by blast
qed

lemma normalize_chars:
  assumes "c \<in> set (normalize_address_token s)"
  shows "lower_cp c = c \<and> c \<notin> {0xFFFD, 0xE4, 0xF6, 0xFC, 0xDF, 32, 45, 47}"
proof -
  define a where "a = lower (fix_mojibake s)"
  have n: "normalize_address_token s = separators (street_words (umlauts a))"
    by (simp add: normalize_address_token_def a_def)
  have ascii: "\<And>x. x \<in> set (lit ''aeous'') \<union> set (lit ''str'') \<Longrightarrow>
      lower_cp x = x \<and> x \<notin> {0xFFFD, 0xE4, 0xF6, 0xFC, 0xDF}"
    by (auto simp: lit_def lower_cp_def)
  have A: "\<And>x. x \<in> set a \<Longrightarrow> lower_cp x = x \<and> x \<noteq> 0xFFFD"
    using lower_chars lower_no_fffd [OF fix_mojibake_no_fffd] unfolding a_def by blast
  from assms n have c1: "c \<in> set (street_words (umlauts a))" and c2: "c \<notin> {32, 45, 47}"
    using separators_chars by auto
  from c1 street_words_chars have "c \<in> set (umlauts a) \<or> c \<in> set (lit ''str'')" by blast
  then show ?thesis
  proof
    assume "c \<in> set (umlauts a)"
    from umlauts_chars [OF this] A ascii c2 show ?thesis by auto
  next
    assume "c \<in> set (lit ''str'')"
    with ascii c2 show ?thesis by auto
  qed
qed


section \<open>Street normalisation: idempotence (C7)\<close>


lemma normalize_fixed_point:
  assumes ch: "\<And>c. c \<in> set t \<Longrightarrow> lower_cp c = c \<and> c \<notin> {0xFFFD, 0xE4, 0xF6, 0xFC, 0xDF, 32, 45, 47}"
    and w1: "\<not> str_in (lit ''strasse'') t" and w2: "\<not> str_in (lit ''strase'') t"
    and w3: "\<not> str_in (lit ''strabe'') t" and w4: "\<not> str_in (lit ''str.'') t"
  shows "normalize_address_token t = t"
proof -
  have noC3: "0xC3 \<notin> set t"
  proof
    assume "0xC3 \<in> set t"
    from ch [OF this] show False by (simp add: lower_cp_def)
  qed
  have m: "\<And>x new. replace t [0xC3, x] new = t"
    using noC3 by (intro replace_missing_char [of "0xC3"]) auto
  have nf: "\<not> str_in [0xFFFD] t" using ch by (auto simp: str_in_single)
  have f: "fix_mojibake t = t"
    unfolding fix_mojibake_def Let_def m using nf by simp
  have l: "lower t = t" unfolding lower_def using ch by (intro map_idI) auto
  have s: "\<And>x new. x \<in> {0xE4, 0xF6, 0xFC, 0xDF, 32, 45, 47} \<Longrightarrow> replace t [x] new = t"
    using ch by (intro replace_missing_char) auto
  have um: "umlauts t = t" unfolding umlauts_def Let_def by (simp add: s)
  have w0: "replace t (lit ''stra'' @ [0xDF] @ lit ''e'') (lit ''str'') = t"
    using ch by (intro replace_missing_char [of "0xDF"]) auto
  have sw: "street_words t = t"
    unfolding street_words_def Let_def w0
    using w1 w2 w3 w4 by (simp add: replace_absent lit_def)
  have sp: "separators t = t" unfolding separators_def Let_def by (simp add: s lit_def)
  show ?thesis by (simp add: normalize_address_token_def f l um sw sp)
qed

lemma normalize_st_r_dot: "normalize_address_token (lit ''st r.'') = lit ''str.''"
  by (simp add: normalize_address_token_def fix_mojibake_def lower_def lower_cp_def umlauts_def
      street_words_def separators_def replace_def lit_def Let_def)

lemma normalize_str_dot: "normalize_address_token (lit ''str.'') = lit ''str''"
  by (simp add: normalize_address_token_def fix_mojibake_def lower_def lower_cp_def umlauts_def
      street_words_def separators_def replace_def lit_def Let_def)

lemma normalize_hauptstrasse: "normalize_address_token (lit ''Hauptstra'' @ [0xDF] @ lit ''e 5'') = lit ''hauptstr5''"
  by (simp add: normalize_address_token_def fix_mojibake_def lower_def lower_cp_def umlauts_def
      street_words_def separators_def replace_def lit_def Let_def)

text \<open>
  C7, as stated: \<open>_normalize_address_token\<close> applied twice gives the same as applied
  once. It fails: the street words are collapsed before the separators are removed, so
  \<open>"st r."\<close> becomes \<open>"str."\<close>, which a second pass turns into \<open>"str"\<close>.
\<close>

theorem normalize_address_token_not_idempotent:
  "normalize_address_token (normalize_address_token (lit ''st r.''))
     \<noteq> normalize_address_token (lit ''st r.'')"
  by (simp add: normalize_st_r_dot normalize_str_dot) (simp add: lit_def)

text \<open>
  C7, amended: whenever the normalised string contains none of the street spellings
  \<open>strasse\<close>, \<open>strase\<close>, \<open>strabe\<close> and \<open>str.\<close>, normalising it again changes nothing.
\<close>

theorem normalize_address_token_idempotent_without_street_word:
  assumes "\<not> str_in (lit ''strasse'') (normalize_address_token s)"
    and "\<not> str_in (lit ''strase'') (normalize_address_token s)"
    and "\<not> str_in (lit ''strabe'') (normalize_address_token s)"
    and "\<not> str_in (lit ''str.'') (normalize_address_token s)"
  shows "normalize_address_token (normalize_address_token s) = normalize_address_token s"
  using assms normalize_chars by (intro normalize_fixed_point) auto

theorem normalize_address_token_idempotent_witness:
  "\<not> str_in (lit ''strasse'') (normalize_address_token (lit ''Hauptstra'' @ [0xDF] @ lit ''e 5''))
   \<and> \<not> str_in (lit ''strase'') (normalize_address_token (lit ''Hauptstra'' @ [0xDF] @ lit ''e 5''))
   \<and> \<not> str_in (lit ''strabe'') (normalize_address_token (lit ''Hauptstra'' @ [0xDF] @ lit ''e 5''))
   \<and> \<not> str_in (lit ''str.'') (normalize_address_token (lit ''Hauptstra'' @ [0xDF] @ lit ''e 5''))
   \<and> normalize_address_token (normalize_address_token (lit ''Hauptstra'' @ [0xDF] @ lit ''e 5''))
       = normalize_address_token (lit ''Hauptstra'' @ [0xDF] @ lit ''e 5'')"
  using normalize_address_token_idempotent_without_street_word
    [of "lit ''Hauptstra'' @ [0xDF] @ lit ''e 5''"]
  unfolding normalize_hauptstrasse
  by (simp add: lit_def)

section \<open>Delivery week: the window and the unparsed request (C2, C9)\<close>


lemma list_min_Min: "list_min cs = (if cs = [] then 0 else Min (set cs))"
proof (cases cs)
  case Nil
  then show ?thesis by simp
next
  case (Cons a l)
  have "Min (set (a # l)) = fold min l a" by (rule Min.set_eq_fold)
  then have "list_min (a # l) = Min (set (a # l))" by (simp only: list_min.simps)
  with Cons show ?thesis by (simp del: list_min.simps)
qed

lemma list_min_in: "cs \<noteq> [] \<Longrightarrow> list_min cs \<in> set cs"
  using Min_in [of "set cs"] by (simp add: list_min_Min)

lemma list_min_le: "x \<in> set cs \<Longrightarrow> list_min cs \<le> x"
  using Min_le [of "set cs" x] by (auto simp: list_min_Min)

lemma str_of_nat_09: "n < 10 \<Longrightarrow> str_of_nat n = [48 + n]"
  by simp

lemma demo_inputs:
  "schedule_inputs demo_parse (demo_schedule 20 [12, 20]) (lit ''15.01.2026'') (lit ''G2'')
     = Some (2026, 20, [12, 20])"
  by (simp add: schedule_inputs_def demo_parse_def demo_schedule_def load_schedule_def
      resolve_target_col_def cell_at_def get_schedule_code_for_tour_def
      get_valid_tour_weeks_def strip_def is_space_def trunc_def lit_def Let_def)

lemma demo_request:
  "extract_week_year demo_parse (lit ''KW09/2026'') (Some 2026) = Some (9, 2026)"
  by (simp add: extract_week_year_def patterns_def re_search_def re_search_from_def
      kw_or_woche_def word_i_def chi_def ch_def spaces_def week_digits_def date_sep_def
      year_digits_def lower_cp_def is_space_def is_digit_def int_of_digits_def lit_def Let_def)


lemma demo_week_12: "str_of_int 2026 @ lit '' Week - '' @ fmt_02d 12 = lit ''2026 Week - 12''"
  by (simp add: str_of_int_def fmt_02d_def lit_def)

text \<open>
  C2: the returned week is never less than the earliest possible week read from the
  matrix. The code breaks this where the request lies so far before the earliest possible
  week that the window is empty by its bounds: for an order in week 3 with earliest
  possible week 20, a tour that runs in weeks 12 and 20 and the request \<open>KW09/2026\<close>,
  the window is \<open>[20, 10]\<close>, and the branch for "no valid week in the window" takes the
  first valid week after week 10 without the lower bound: week 12.
\<close>

theorem delivery_week_earlier_than_earliest_possible:
  "schedule_inputs demo_parse (demo_schedule 20 [12, 20]) (lit ''15.01.2026'') (lit ''G2'')
     = Some (2026, 20, [12, 20])
   \<and> extract_week_year demo_parse (lit ''KW09/2026'') (Some 2026) = Some (9, 2026)
   \<and> calculate_delivery_week demo_parse (demo_schedule 20 [12, 20]) (lit ''15.01.2026'')
        (lit ''G2'') (Some (lit ''KW09/2026'')) = lit ''2026 Week - 12''"
proof -
  have ne: "lit ''KW09/2026'' \<noteq> []" by (simp add: lit_def)
  have "delivery_week demo_parse (demo_schedule 20 [12, 20]) (lit ''15.01.2026'')
        (lit ''G2'') (Some (lit ''KW09/2026'')) = Some (2026, 12)"
    by (simp add: delivery_week_def demo_inputs demo_request ne candidate_weeks_def)
  then show ?thesis
    by (simp add: calculate_delivery_week_def demo_inputs demo_request demo_week_12)
qed

text \<open>
  What the three branches return: without a request the least valid week from the
  earliest possible week on; with a request the least valid week of the window; and, when
  no valid week lies in the window, the least valid week after it.
\<close>

lemma delivery_week_without_request:
  assumes "schedule_inputs parse_iso L od tr = Some (y_order, e, vs)"
  shows "delivery_week parse_iso L od tr None =
           (if filter (\<lambda>v. e \<le> v) vs = [] then None
            else Some (y_order, Min (set (filter (\<lambda>v. e \<le> v) vs))))"
  using assms by (simp add: delivery_week_def candidate_weeks_def list_min_Min)

lemma delivery_week_in_window:
  assumes "schedule_inputs parse_iso L od tr = Some (y_order, e, vs)"
    and "text \<noteq> []"
    and "extract_week_year parse_iso text (Some y_order) = Some (req_w, req_y)"
    and "filter (\<lambda>v. max e (req_w - 5) \<le> v \<and> v \<le> req_w + 1) vs \<noteq> []"
  shows "delivery_week parse_iso L od tr (Some text) =
           Some (req_y, Min (set (filter (\<lambda>v. max e (req_w - 5) \<le> v \<and> v \<le> req_w + 1) vs)))"
  using assms by (simp add: delivery_week_def candidate_weeks_def list_min_Min)

lemma delivery_week_after_window:
  assumes "schedule_inputs parse_iso L od tr = Some (y_order, e, vs)"
    and "text \<noteq> []"
    and "extract_week_year parse_iso text (Some y_order) = Some (req_w, req_y)"
    and "filter (\<lambda>v. max e (req_w - 5) \<le> v \<and> v \<le> req_w + 1) vs = []"
  shows "delivery_week parse_iso L od tr (Some text) =
           (if filter (\<lambda>v. req_w + 1 < v) vs = [] then None
            else Some (req_y, Min (set (filter (\<lambda>v. req_w + 1 < v) vs))))"
  using assms by (simp add: delivery_week_def candidate_weeks_def list_min_Min)

text \<open>
  C9: when the order resolves to a year, an earliest possible week and valid weeks, and
  the requested-week text is not parsed by any pattern nor by the date parser, then
  \<open>calculate_delivery_week\<close> returns the string it returns without a request: the
  order's year, \<open>" Week - "\<close> and, in two digits, the least valid week at or after the
  earliest possible week. The string is not empty whenever the tour runs in such a week;
  it is empty only when the tour never runs from the earliest possible week on, as
  without a request.
\<close>

theorem unparsed_requested_week_is_ignored:
  assumes "schedule_inputs parse_iso L od tr = Some (y_order, e, vs)"
    and "extract_week_year parse_iso text (Some y_order) = None"
  shows "calculate_delivery_week parse_iso L od tr (Some text)
           = (if filter (\<lambda>v. e \<le> v) vs = [] then []
              else str_of_int y_order @ lit '' Week - ''
                   @ fmt_02d (Min (set (filter (\<lambda>v. e \<le> v) vs))))
       \<and> calculate_delivery_week parse_iso L od tr (Some text)
           = calculate_delivery_week parse_iso L od tr None
       \<and> (filter (\<lambda>v. e \<le> v) vs \<noteq> []
            \<longrightarrow> calculate_delivery_week parse_iso L od tr (Some text) \<noteq> [])"
proof -
  have same: "delivery_week parse_iso L od tr (Some text) = delivery_week parse_iso L od tr None"
    using assms by (simp add: delivery_week_def)
  have res: "calculate_delivery_week parse_iso L od tr (Some text)
           = (if filter (\<lambda>v. e \<le> v) vs = [] then []
              else str_of_int y_order @ lit '' Week - ''
                   @ fmt_02d (Min (set (filter (\<lambda>v. e \<le> v) vs))))"
    unfolding calculate_delivery_week_def same delivery_week_without_request [OF assms(1)]
    by simp
  have eq: "calculate_delivery_week parse_iso L od tr (Some text)
           = calculate_delivery_week parse_iso L od tr None"
    unfolding calculate_delivery_week_def same ..
  have ne: "calculate_delivery_week parse_iso L od tr (Some text) \<noteq> []"
    if "filter (\<lambda>v. e \<le> v) vs \<noteq> []"
    unfolding res using that by (simp add: lit_def)
  from res eq ne show ?thesis by simp
qed

lemma demo_inputs_8:
  "schedule_inputs demo_parse (demo_schedule 8 [8, 10, 12]) (lit ''15.01.2026'') (lit ''G2'')
     = Some (2026, 8, [8, 10, 12])"
  by (simp add: schedule_inputs_def demo_parse_def demo_schedule_def load_schedule_def
      resolve_target_col_def cell_at_def get_schedule_code_for_tour_def
      get_valid_tour_weeks_def strip_def is_space_def trunc_def lit_def Let_def)

lemma demo_unparsed:
  "extract_week_year demo_parse (lit ''asap'') (Some 2026) = None"
  by (simp add: extract_week_year_def patterns_def patterns_no_year_def re_search_def
      re_search_from_def kw_or_woche_def word_i_def chi_def ch_def spaces_def week_digits_def
      date_sep_def year_digits_def lower_cp_def is_space_def is_digit_def is_word_def
      word_at_def demo_parse_def int_of_digits_def lit_def Let_def)

lemma demo_week_08: "str_of_int 2026 @ lit '' Week - '' @ fmt_02d 8 = lit ''2026 Week - 08''"
  by (simp add: str_of_int_def fmt_02d_def lit_def)

theorem unparsed_requested_week_witness:
  "schedule_inputs demo_parse (demo_schedule 8 [8, 10, 12]) (lit ''15.01.2026'') (lit ''G2'')
     = Some (2026, 8, [8, 10, 12])
   \<and> extract_week_year demo_parse (lit ''asap'') (Some 2026) = None
   \<and> calculate_delivery_week demo_parse (demo_schedule 8 [8, 10, 12]) (lit ''15.01.2026'')
        (lit ''G2'') (Some (lit ''asap'')) = lit ''2026 Week - 08''
   \<and> calculate_delivery_week demo_parse (demo_schedule 8 [8, 10, 12]) (lit ''15.01.2026'')
        (lit ''G2'') None = lit ''2026 Week - 08''"
proof -
  have m: "Min (set (filter (\<lambda>v. 8 \<le> v) [8, 10, 12 :: int])) = 8" by simp
  note w = unparsed_requested_week_is_ignored [OF demo_inputs_8 demo_unparsed]
  have a: "calculate_delivery_week demo_parse (demo_schedule 8 [8, 10, 12]) (lit ''15.01.2026'')
        (lit ''G2'') (Some (lit ''asap'')) = lit ''2026 Week - 08''"
    using w [THEN conjunct1] unfolding m by (simp add: demo_week_08)
  have b: "calculate_delivery_week demo_parse (demo_schedule 8 [8, 10, 12]) (lit ''15.01.2026'')
        (lit ''G2'') (Some (lit ''asap''))
      = calculate_delivery_week demo_parse (demo_schedule 8 [8, 10, 12]) (lit ''15.01.2026'')
        (lit ''G2'') None"
    by (rule w [THEN conjunct2, THEN conjunct1])
  from a b have "calculate_delivery_week demo_parse (demo_schedule 8 [8, 10, 12])
        (lit ''15.01.2026'') (lit ''G2'') None = lit ''2026 Week - 08''"
    by simp
  with a demo_inputs_8 demo_unparsed show ?thesis by simp
qed

section \<open>Customer number of a location identifier (C6)\<close>

lemma filter_by_verband_mem:
  "filter_by_verband cols rs = Some rs' \<Longrightarrow> r \<in> set rs' \<Longrightarrow>
     r \<in> set rs \<and> (\<exists>v. verband r = Some v \<and> v \<in> VERBAND_FILTER)"
  by (auto simp: filter_by_verband_def split: if_splits option.splits)

lemma iln_candidate_last5:
  "iln_candidate iln_value = Some c \<Longrightarrow>
     4 \<le> length (iln_digits iln_value)
     \<and> c = drop (length (iln_digits iln_value) - 5) (iln_digits iln_value)"
  by (auto simp: iln_candidate_def Let_def split: if_splits)

lemma iln_candidate_few_digits:
  "length (iln_digits iln_value) < 4 \<Longrightarrow> iln_candidate iln_value = None"
  by (simp add: iln_candidate_def Let_def)

text \<open>
  C6: \<open>find_kundennummer_by_iln\<close> returns a customer number only if the candidate, the
  last five digits of the cleaned identifier, has after cleaning (leading zeros
  stripped) the customer number of a registry row whose \<open>Verband\<close> is eligible, and the
  number returned is that row's; with fewer than four digits, or with no such row, it
  returns \<open>None\<close>.
\<close>

theorem find_kundennummer_by_iln_verified:
  "(\<forall>k. find_kundennummer_by_iln load_data iln_value = Some k \<longrightarrow>
      (\<exists>df r. load_data = Some df \<and> 4 \<le> length (iln_digits iln_value)
         \<and> r \<in> set (df_rows df)
         \<and> (\<exists>v. verband r = Some v \<and> v \<in> VERBAND_FILTER)
         \<and> clean_num (clean_cell (df_columns df) r ''Kundennummer'')
             = clean_num (drop (length (iln_digits iln_value) - 5) (iln_digits iln_value))
         \<and> k = clean_cell (df_columns df) r ''Kundennummer''))
   \<and> (length (iln_digits iln_value) < 4 \<longrightarrow> find_kundennummer_by_iln load_data iln_value = None)
   \<and> (\<forall>df. load_data = Some df
         \<and> \<not> (\<exists>r \<in> set (df_rows df). (\<exists>v. verband r = Some v \<and> v \<in> VERBAND_FILTER)
               \<and> clean_num (clean_cell (df_columns df) r ''Kundennummer'')
                   = clean_num (drop (length (iln_digits iln_value) - 5) (iln_digits iln_value)))
       \<longrightarrow> find_kundennummer_by_iln load_data iln_value = None)"
proof -
  have A: "\<exists>df r. load_data = Some df \<and> 4 \<le> length (iln_digits iln_value)
         \<and> r \<in> set (df_rows df)
         \<and> (\<exists>v. verband r = Some v \<and> v \<in> VERBAND_FILTER)
         \<and> clean_num (clean_cell (df_columns df) r ''Kundennummer'')
             = clean_num (drop (length (iln_digits iln_value) - 5) (iln_digits iln_value))
         \<and> k = clean_cell (df_columns df) r ''Kundennummer''"
    if k: "find_kundennummer_by_iln load_data iln_value = Some k" for k
  proof -
    from k obtain df where df: "load_data = Some df"
      by (auto simp: find_kundennummer_by_iln_def split: option.splits)
    from k df obtain c where c: "iln_candidate iln_value = Some c"
      by (auto simp: find_kundennummer_by_iln_def split: option.splits)
    from k df c obtain r rs where rs: "verified_rows df c = Some (r # rs)"
      and kk: "k = clean_cell (df_columns df) r ''Kundennummer''"
      by (auto simp: find_kundennummer_by_iln_def Let_def
          split: option.splits if_splits list.splits)
    from rs have "r \<in> set (filter (\<lambda>r. clean_num (clean_cell (df_columns df) r ''Kundennummer'')
                                      = clean_num c) (df_rows df))
        \<and> (\<exists>v. verband r = Some v \<and> v \<in> VERBAND_FILTER)"
      unfolding verified_rows_def by (intro filter_by_verband_mem [where rs'="r # rs"]) auto
    with iln_candidate_last5 [OF c] df kk show ?thesis by auto
  qed
  have B: "find_kundennummer_by_iln load_data iln_value = None"
    if "length (iln_digits iln_value) < 4"
    using iln_candidate_few_digits [OF that]
    by (simp add: find_kundennummer_by_iln_def split: option.splits)
  have C: "find_kundennummer_by_iln load_data iln_value = None"
    if "load_data = Some df" and
      "\<not> (\<exists>r \<in> set (df_rows df). (\<exists>v. verband r = Some v \<and> v \<in> VERBAND_FILTER)
               \<and> clean_num (clean_cell (df_columns df) r ''Kundennummer'')
                   = clean_num (drop (length (iln_digits iln_value) - 5) (iln_digits iln_value)))"
    for df
  proof (cases "find_kundennummer_by_iln load_data iln_value")
    case None
    then show ?thesis .
  next
    case (Some k)
    from A [OF Some] that show ?thesis by auto
  qed
  from A B C show ?thesis by blast
qed

lemma demo_iln_found:
  "find_kundennummer_by_iln (Some demo_frame) (lit ''40065920000027566'') = Some (lit ''27566'')"
  by code_simp

lemma demo_iln_last5:
  "drop (length (iln_digits (lit ''40065920000027566'')) - 5) (iln_digits (lit ''40065920000027566''))
     = lit ''27566''"
  by code_simp

lemma demo_iln_short_digits: "length (iln_digits (lit ''123'')) < 4"
  by code_simp

theorem find_kundennummer_by_iln_witness:
  "find_kundennummer_by_iln (Some demo_frame) (lit ''40065920000027566'') = Some (lit ''27566'')
   \<and> (\<exists>r \<in> set (df_rows demo_frame). (\<exists>v. verband r = Some v \<and> v \<in> VERBAND_FILTER)
        \<and> clean_num (clean_cell (df_columns demo_frame) r ''Kundennummer'')
            = clean_num (lit ''27566'')
        \<and> lit ''27566'' = clean_cell (df_columns demo_frame) r ''Kundennummer'')
   \<and> length (iln_digits (lit ''123'')) < 4
   \<and> find_kundennummer_by_iln (Some demo_frame) (lit ''123'') = None"
proof -
  from find_kundennummer_by_iln_verified [of "Some demo_frame" "lit ''40065920000027566''"]
    demo_iln_found
  have "\<exists>r \<in> set (df_rows demo_frame). (\<exists>v. verband r = Some v \<and> v \<in> VERBAND_FILTER)
        \<and> clean_num (clean_cell (df_columns demo_frame) r ''Kundennummer'')
            = clean_num (lit ''27566'')
        \<and> lit ''27566'' = clean_cell (df_columns demo_frame) r ''Kundennummer''"
    unfolding demo_iln_last5 by blast
  moreover from find_kundennummer_by_iln_verified [of "Some demo_frame" "lit ''123''"]
    demo_iln_short_digits
  have "find_kundennummer_by_iln (Some demo_frame) (lit ''123'') = None" by blast
  ultimately show ?thesis using demo_iln_found demo_iln_short_digits by blast
qed

section \<open>The region-restricted matcher stays inside its allowlist (C4)\<close>

lemma momax_candidate_row:
  "momax_candidate fuzz ratio cols a r = Some c \<Longrightarrow> cand_row c = r"
  by (auto simp: momax_candidate_def Let_def split: if_splits)

lemma allowed_clean:
  "map clean_kdnr MOMAX_BG_ALLOWED_KUNDENNUMMERN = MOMAX_BG_ALLOWED_KUNDENNUMMERN"
  by code_simp

lemma map_filter_mem:
  "y \<in> set (List.map_filter f xs) \<Longrightarrow> \<exists>x \<in> set xs. f x = Some y"
  by (auto simp: List.map_filter_def)

lemma momax_subset_allowed:
  assumes "r \<in> set (momax_subset df)"
  shows "clean_kdnr (clean_cell (df_columns df) r ''Kundennummer'')
           \<in> set MOMAX_BG_ALLOWED_KUNDENNUMMERN"
proof (cases "filter_by_verband (df_columns df) (zero_rows (df_columns df) (df_rows df))")
  case None
  with assms show ?thesis by (simp add: momax_subset_def)
next
  case (Some rows0)
  with assms have "clean_kdnr (clean_cell (df_columns df) r ''Kundennummer'')
      \<in> set (map clean_kdnr MOMAX_BG_ALLOWED_KUNDENNUMMERN)"
    by (simp add: momax_subset_def del: set_map)
  then show ?thesis unfolding allowed_clean .
qed

lemma find_momax_some:
  assumes "find_momax_bg_customer_by_address (Some df) fuzz ratio address_str = Some m"
  shows "\<exists>best rest.
           sort_key sort_key_of
             (List.map_filter (momax_candidate fuzz ratio (df_columns df) (strip address_str))
                (momax_subset df)) = best # rest
           \<and> kundennummer m = clean_cell (df_columns df) (cand_row best) ''Kundennummer''"
proof -
  let ?cs = "sort_key sort_key_of
             (List.map_filter (momax_candidate fuzz ratio (df_columns df) (strip address_str))
                (momax_subset df))"
  from assms have "(case ?cs of [] \<Rightarrow> None
      | best # _ \<Rightarrow> Some \<lparr> kundennummer = clean_cell (df_columns df) (cand_row best) ''Kundennummer'',
                        adressnummer = clean_cell (df_columns df) (cand_row best) ''Adressnummer'',
                        tour = strip (cell (df_columns df) (cand_row best) ''Tour'') \<rparr>) = Some m"
    unfolding find_momax_bg_customer_by_address_def Let_def
    by (simp split: if_splits)
  then show ?thesis by (cases ?cs) auto
qed

lemma find_momax_none_on_empty:
  "momax_subset df = [] \<Longrightarrow>
     find_momax_bg_customer_by_address (Some df) fuzz ratio address_str = None"
  unfolding find_momax_bg_customer_by_address_def Let_def by simp

lemma find_momax_allowed:
  assumes m: "find_momax_bg_customer_by_address load_data fuzz ratio address_str = Some m"
  shows "clean_kdnr (kundennummer m) \<in> set MOMAX_BG_ALLOWED_KUNDENNUMMERN"
proof -
  from m obtain df where df: "load_data = Some df"
    by (cases load_data) (simp_all add: find_momax_bg_customer_by_address_def)
  define cands where
    "cands = List.map_filter (momax_candidate fuzz ratio (df_columns df) (strip address_str))
               (momax_subset df)"
  from find_momax_some [OF m [unfolded df]] obtain best rest where
    s: "sort_key sort_key_of cands = best # rest" and
    k: "kundennummer m = clean_cell (df_columns df) (cand_row best) ''Kundennummer''"
    unfolding cands_def by blast
  have "best \<in> set (sort_key sort_key_of cands)" unfolding s by simp
  then have "best \<in> set cands" by simp
  then obtain r where r: "r \<in> set (momax_subset df)"
    and c: "momax_candidate fuzz ratio (df_columns df) (strip address_str) r = Some best"
    unfolding cands_def by (blast dest: map_filter_mem)
  from momax_candidate_row [OF c] have "cand_row best = r" .
  with k momax_subset_allowed [OF r] show ?thesis by simp
qed

text \<open>
  C4: whatever the address and the registry, a customer number returned by
  \<open>find_momax_bg_customer_by_address\<close> has its cleaned form in
  \<open>MOMAX_BG_ALLOWED_KUNDENNUMMERN\<close>; and when no eligible row of the registry is in the
  allowlist the function returns \<open>None\<close>. It has no call to the general matcher: in the
  witness the general matcher finds a customer for an address for which this one
  returns \<open>None\<close>.
\<close>

theorem find_momax_bg_only_allowlist:
  "(\<forall>m. find_momax_bg_customer_by_address load_data fuzz ratio address_str = Some m \<longrightarrow>
        clean_kdnr (kundennummer m) \<in> set MOMAX_BG_ALLOWED_KUNDENNUMMERN)
   \<and> (\<forall>df. load_data = Some df \<and> momax_subset df = [] \<longrightarrow>
        find_momax_bg_customer_by_address load_data fuzz ratio address_str = None)"
proof (intro conjI allI impI)
  fix m
  assume "find_momax_bg_customer_by_address load_data fuzz ratio address_str = Some m"
  then show "clean_kdnr (kundennummer m) \<in> set MOMAX_BG_ALLOWED_KUNDENNUMMERN"
    by (rule find_momax_allowed)
next
  fix df
  assume a: "load_data = Some df \<and> momax_subset df = []"
  then have "momax_subset df = []" ..
  then have "find_momax_bg_customer_by_address (Some df) fuzz ratio address_str = None"
    by (rule find_momax_none_on_empty)
  with a show "find_momax_bg_customer_by_address load_data fuzz ratio address_str = None"
    by simp
qed

lemma demo_momax_found:
  "find_momax_bg_customer_by_address (Some demo_frame) None no_similarity
     (lit ''Okolovrasten 12 pat, 1000 Sofia'')
   = Some \<lparr> kundennummer = lit ''68935'', adressnummer = lit ''0'', tour = lit ''BG1'' \<rparr>"
  by code_simp

lemma demo_momax_subset_empty: "momax_subset demo_frame_de = []"
  by code_simp

lemma demo_general_finds:
  "fst (find_customer_by_address (Some demo_frame_de) None (lit ''Hauptstr 5, 80331 Muenchen'')
          None no_hints None)
   = Inr (Some \<lparr> kundennummer = lit ''27566'', adressnummer = lit ''0'', tour = lit ''G2'' \<rparr>)"
  by code_simp

theorem find_momax_bg_only_allowlist_witness:
  "find_momax_bg_customer_by_address (Some demo_frame) None no_similarity
     (lit ''Okolovrasten 12 pat, 1000 Sofia'')
     = Some \<lparr> kundennummer = lit ''68935'', adressnummer = lit ''0'', tour = lit ''BG1'' \<rparr>
   \<and> clean_kdnr (lit ''68935'') \<in> set MOMAX_BG_ALLOWED_KUNDENNUMMERN
   \<and> momax_subset demo_frame_de = []
   \<and> find_momax_bg_customer_by_address (Some demo_frame_de) None no_similarity
        (lit ''Hauptstr 5, 80331 Muenchen'') = None
   \<and> fst (find_customer_by_address (Some demo_frame_de) None (lit ''Hauptstr 5, 80331 Muenchen'')
          None no_hints None)
      = Inr (Some \<lparr> kundennummer = lit ''27566'', adressnummer = lit ''0'', tour = lit ''G2'' \<rparr>)"
proof -
  from find_momax_bg_only_allowlist [of "Some demo_frame" None no_similarity
      "lit ''Okolovrasten 12 pat, 1000 Sofia''"] demo_momax_found
  have a: "clean_kdnr (lit ''68935'') \<in> set MOMAX_BG_ALLOWED_KUNDENNUMMERN" by simp
  from find_momax_bg_only_allowlist [of "Some demo_frame_de" None no_similarity
      "lit ''Hauptstr 5, 80331 Muenchen''"] demo_momax_subset_empty
  have b: "find_momax_bg_customer_by_address (Some demo_frame_de) None no_similarity
        (lit ''Hauptstr 5, 80331 Muenchen'') = None" by simp
  from a b demo_momax_found demo_momax_subset_empty demo_general_finds show ?thesis by simp
qed

section \<open>Token coverage and the house number (C8)\<close>

text \<open>
  A registry token counts as covered when it equals an input token or is similar to one
  at the threshold or more.
\<close>

lemma token_best_covered:
  "t \<le> 1 \<Longrightarrow>
     (token_best ratio rt its b \<ge> t) \<longleftrightarrow>
     (rt \<in> set its \<or> b \<ge> t \<or> (\<exists>it \<in> set its. ratio rt it \<ge> t))"
proof (induction its arbitrary: b)
  case Nil
  then show ?case by simp
next
  case (Cons it its)
  show ?case
  proof (cases "rt = it")
    case True
    with Cons.prems show ?thesis by simp
  next
    case False
    have "(token_best ratio rt (it # its) b \<ge> t)
        = (token_best ratio rt its (if ratio rt it > b then ratio rt it else b) \<ge> t)"
      using False by (simp add: Let_def)
    also have "\<dots> = (rt \<in> set its \<or> (if ratio rt it > b then ratio rt it else b) \<ge> t
        \<or> (\<exists>x \<in> set its. ratio rt x \<ge> t))"
      by (rule Cons.IH [OF Cons.prems])
    also have "\<dots> = (rt \<in> set (it # its) \<or> b \<ge> t \<or> (\<exists>x \<in> set (it # its). ratio rt x \<ge> t))"
      using False by auto
    finally show ?thesis .
  qed
qed

lemma token_accept_iff:
  "token_accept (row_signals fuzz ratio address_str strasse_db) \<longleftrightarrow>
     (\<not> strict (row_signals fuzz ratio address_str strasse_db)
      \<and> token_coverage_score ratio (street_tokens strasse_db) (street_tokens address_str) \<ge> 3 / 4
      \<and> (house_match (row_signals fuzz ratio address_str strasse_db)
          \<or> extract_house_number_tokens strasse_db = []))"
  by (simp add: row_signals_def Let_def)

lemma house_match_iff:
  "house_match (row_signals fuzz ratio address_str strasse_db) \<longleftrightarrow>
     set (extract_house_number_tokens strasse_db) \<inter> set (extract_house_number_tokens address_str) \<noteq> {}"
  by (auto simp: row_signals_def Let_def list_ex_iff)

text \<open>
  C8, amended: a row whose street matches neither strictly nor by the fuzzy score is
  admitted only when its token coverage is at least 0.75 and, if the registry street has
  a house-number token at all, one of them is among the house-number tokens of the input.
\<close>

theorem token_accept_needs_coverage_and_house_number_if_any:
  assumes "admitted (row_signals fuzz ratio address_str strasse_db)"
    and "\<not> strict (row_signals fuzz ratio address_str strasse_db)"
    and "\<not> fuzzy_accept (row_signals fuzz ratio address_str strasse_db)"
  shows "token_coverage_score ratio (street_tokens strasse_db) (street_tokens address_str) \<ge> 3 / 4
       \<and> (set (extract_house_number_tokens strasse_db)
             \<inter> set (extract_house_number_tokens address_str) \<noteq> {}
           \<or> extract_house_number_tokens strasse_db = [])"
proof -
  from assms have "token_accept (row_signals fuzz ratio address_str strasse_db)"
    by (simp add: admitted_def)
  then show ?thesis unfolding token_accept_iff house_match_iff by simp
qed

lemma demo_signals:
  "admitted (row_signals None no_similarity (lit ''Okolovrasten 12 pat, 1000 Sofia'')
       (lit ''Okolovrasten pat''))
   \<and> \<not> strict (row_signals None no_similarity (lit ''Okolovrasten 12 pat, 1000 Sofia'')
       (lit ''Okolovrasten pat''))
   \<and> \<not> fuzzy_accept (row_signals None no_similarity (lit ''Okolovrasten 12 pat, 1000 Sofia'')
       (lit ''Okolovrasten pat''))"
  by code_simp

lemma demo_no_house_number:
  "extract_house_number_tokens (lit ''Okolovrasten pat'') = []"
  by code_simp

lemma demo_coverage:
  "token_coverage_score no_similarity (street_tokens (lit ''Okolovrasten pat''))
     (street_tokens (lit ''Okolovrasten 12 pat, 1000 Sofia'')) = 1"
  by code_simp

text \<open>
  C8, as stated, asks for house-number corroboration in every case. It fails for a
  registry street without a house number: \<open>Okolovrasten pat\<close> is admitted for the input
  \<open>Okolovrasten 12 pat, 1000 Sofia\<close> on token coverage alone (no strict match, no fuzzy
  library), though the two have no house-number token in common, and the matcher
  returns the customer.
\<close>

theorem token_accept_without_house_number:
  "admitted (row_signals None no_similarity (lit ''Okolovrasten 12 pat, 1000 Sofia'')
       (lit ''Okolovrasten pat''))
   \<and> \<not> strict (row_signals None no_similarity (lit ''Okolovrasten 12 pat, 1000 Sofia'')
       (lit ''Okolovrasten pat''))
   \<and> \<not> fuzzy_accept (row_signals None no_similarity (lit ''Okolovrasten 12 pat, 1000 Sofia'')
       (lit ''Okolovrasten pat''))
   \<and> set (extract_house_number_tokens (lit ''Okolovrasten pat''))
       \<inter> set (extract_house_number_tokens (lit ''Okolovrasten 12 pat, 1000 Sofia'')) = {}
   \<and> find_momax_bg_customer_by_address (Some demo_frame) None no_similarity
        (lit ''Okolovrasten 12 pat, 1000 Sofia'')
      = Some \<lparr> kundennummer = lit ''68935'', adressnummer = lit ''0'', tour = lit ''BG1'' \<rparr>"
proof -
  have "find_momax_bg_customer_by_address (Some demo_frame) None no_similarity
        (lit ''Okolovrasten 12 pat, 1000 Sofia'')
      = Some \<lparr> kundennummer = lit ''68935'', adressnummer = lit ''0'', tour = lit ''BG1'' \<rparr>"
    by code_simp
  with demo_signals show ?thesis by (simp add: demo_no_house_number)
qed

theorem token_accept_witness:
  "admitted (row_signals None no_similarity (lit ''Okolovrasten 12 pat, 1000 Sofia'')
       (lit ''Okolovrasten pat''))
   \<and> \<not> strict (row_signals None no_similarity (lit ''Okolovrasten 12 pat, 1000 Sofia'')
       (lit ''Okolovrasten pat''))
   \<and> \<not> fuzzy_accept (row_signals None no_similarity (lit ''Okolovrasten 12 pat, 1000 Sofia'')
       (lit ''Okolovrasten pat''))
   \<and> token_coverage_score no_similarity (street_tokens (lit ''Okolovrasten pat''))
        (street_tokens (lit ''Okolovrasten 12 pat, 1000 Sofia'')) \<ge> 3 / 4
   \<and> extract_house_number_tokens (lit ''Okolovrasten pat'') = []"
  using token_accept_needs_coverage_and_house_number_if_any
    [of None no_similarity "lit ''Okolovrasten 12 pat, 1000 Sofia''" "lit ''Okolovrasten pat''"]
    demo_signals demo_no_house_number
  by simp

section \<open>The general matcher: strict pass, fuzzy pass and fallback (C1, C3, C10)\<close>

lemma narrow_subset: "set (narrow score cs) \<subseteq> set cs"
  by (simp add: narrow_def Let_def)

lemma prefer_plz_subset: "set (prefer_plz cols plz cs) \<subseteq> set cs"
  by (cases plz) (simp_all add: prefer_plz_def Let_def)

lemma by_company_subset: "set (by_company cols h cs) \<subseteq> set cs"
  using narrow_subset by (simp add: by_company_def Let_def)

lemma by_filiale_subset: "set (by_filiale cols h cs) \<subseteq> set cs"
  using narrow_subset by (simp add: by_filiale_def Let_def)

lemma by_client_hint_subset: "set (by_client_hint cols h cs) \<subseteq> set cs"
  using narrow_subset by (simp add: by_client_hint_def Let_def)

lemma by_joop_subset: "set (by_joop cols h cs) \<subseteq> set cs"
  by (simp add: by_joop_def Let_def)

lemma by_einrichtungshaus_subset: "set (by_einrichtungshaus cols cs) \<subseteq> set cs"
  by (simp add: by_einrichtungshaus_def Let_def)

lemma cascade_subset:
  "set (by_einrichtungshaus cols (by_joop cols h (by_client_hint cols h (by_filiale cols h
          (by_company cols h (prefer_plz cols plz cs)))))) \<subseteq> set cs"
  using by_einrichtungshaus_subset by_joop_subset by_client_hint_subset by_filiale_subset
    by_company_subset prefer_plz_subset
  by (meson subset_trans)

lemma select_candidate_some:
  assumes "select_candidate cols cands plz h w = (Inr (Some m), w')"
  shows "\<exists>r \<in> set cands. m = row_result cols r \<and> clean_cell cols r ''Adressnummer'' = lit ''0''"
proof -
  let ?fin = "by_einrichtungshaus cols (by_joop cols h (by_client_hint cols h (by_filiale cols h
          (by_company cols h (prefer_plz cols plz cands)))))"
  from assms obtain best rest where f: "?fin = best # rest"
    unfolding select_candidate_def Let_def
    by (cases ?fin) (simp_all split: if_splits)
  from assms f have "m = row_result cols best \<and> clean_cell cols best ''Adressnummer'' = lit ''0''"
    unfolding select_candidate_def Let_def
    by (simp split: if_splits)
  moreover have "best \<in> set cands" using cascade_subset [of cols h plz cands] f by auto
  ultimately show ?thesis by blast
qed

lemma zero_row_result:
  "clean_cell cols r ''Adressnummer'' = lit ''0'' \<Longrightarrow> strip (adressnummer (row_result cols r)) = lit ''0''"
  by (simp add: clean_cell_def row_result_def)

lemma fallback_some:
  assumes "match_by_kundennummer_fallback df k = Some m"
  shows "strip (adressnummer m) = lit ''0''
       \<or> (\<exists>rs. hinted_rows df k = Some rs \<and> zero_rows (df_columns df) rs = [])"
proof -
  from assms obtain r rs where hr: "hinted_rows df k = Some (r # rs)"
    unfolding match_by_kundennummer_fallback_def Let_def
    by (cases "hinted_rows df k"; cases "the (hinted_rows df k)") (simp_all split: if_splits)
  show ?thesis
  proof (cases "zero_rows (df_columns df) (r # rs)")
    case Nil
    with hr show ?thesis by blast
  next
    case (Cons z zs)
    then have "z \<in> set (zero_rows (df_columns df) (r # rs))" by simp
    then have z: "clean_cell (df_columns df) z ''Adressnummer'' = lit ''0''"
      by (simp add: zero_rows_def del: filter.simps)
    have col: "''Adressnummer'' \<in> set (df_columns df)"
    proof (rule ccontr)
      assume "''Adressnummer'' \<notin> set (df_columns df)"
      then have "clean_cell (df_columns df) z ''Adressnummer'' = []"
        by (simp add: clean_cell_def cell_def strip_def replace_def)
      with z show False by (simp add: lit_def)
    qed
    from assms hr Cons col have "m = row_result (df_columns df) z"
      unfolding match_by_kundennummer_fallback_def Let_def
      by (simp split: if_splits)
    with zero_row_result [OF z] show ?thesis by simp
  qed
qed

lemma hint_fallback_some:
  assumes "hint_fallback df kdnr = Some m"
  shows "strip (adressnummer m) = lit ''0''
       \<or> (\<exists>k rs. kdnr = Some k \<and> hinted_rows df k = Some rs \<and> zero_rows (df_columns df) rs = [])"
proof -
  from assms obtain k where k: "kdnr = Some k" "match_by_kundennummer_fallback df k = Some m"
    unfolding hint_fallback_def by (cases kdnr) (simp_all split: if_splits)
  from fallback_some [OF k(2)] k(1) show ?thesis by blast
qed

text \<open>The candidates the two loops leave, and the function in terms of them.\<close>

lemma find_customer_by_address_unfold:
  "find_customer_by_address (Some df) fuzz a kdnr h w =
     (if a = [] \<or> strip a = [] then (Inr (hint_fallback df kdnr), w)
      else case address_subset df (extract_plz (strip a)) of
             Inl e \<Rightarrow> (Inl e, w)
           | Inr None \<Rightarrow> (Inr None, w)
           | Inr (Some rows0) \<Rightarrow>
               if (case fuzz of
                     Some ratio \<Rightarrow>
                       if strict_candidates (df_columns df) rows0 (address_key (strip a) h) = []
                       then fuzzy_candidates ratio (df_columns df) rows0 (address_key (strip a) h)
                              (extract_plz (strip a))
                       else strict_candidates (df_columns df) rows0 (address_key (strip a) h)
                   | None \<Rightarrow> strict_candidates (df_columns df) rows0 (address_key (strip a) h)) = []
               then (Inr (hint_fallback df kdnr), w)
               else select_candidate (df_columns df)
                      (case fuzz of
                         Some ratio \<Rightarrow>
                           if strict_candidates (df_columns df) rows0 (address_key (strip a) h) = []
                           then fuzzy_candidates ratio (df_columns df) rows0 (address_key (strip a) h)
                                  (extract_plz (strip a))
                           else strict_candidates (df_columns df) rows0 (address_key (strip a) h)
                       | None \<Rightarrow> strict_candidates (df_columns df) rows0 (address_key (strip a) h))
                      (extract_plz (strip a)) h w)"
  unfolding find_customer_by_address_def Let_def
  by (simp split: sum.splits option.splits)

lemma strict_candidates_mem:
  "r \<in> set (strict_candidates cols rows0 addr) \<Longrightarrow>
     r \<in> set rows0
     \<and> street_matches (normalize_address_token (cell cols r ''Strasse'')) addr
     \<and> (str_in (normalize_city (cell cols r ''Ort'')) addr \<or> city_matches (cell cols r ''Ort'') addr)"
  by (simp add: strict_candidates_def Let_def)

lemma address_subset_mem:
  assumes "address_subset df plz = Inr (Some rows0)" and "r \<in> set rows0"
  shows "r \<in> set (df_rows df) \<and> clean_cell (df_columns df) r ''Adressnummer'' = lit ''0''
       \<and> (\<exists>v. verband r = Some v \<and> v \<in> VERBAND_FILTER)"
proof -
  from assms(1) obtain rows1 where
    f: "filter_by_verband (df_columns df) (zero_rows (df_columns df) (df_rows df)) = Some rows1"
    and s: "set rows0 \<subseteq> set rows1"
    unfolding address_subset_def Let_def
    by (cases "filter_by_verband (df_columns df) (zero_rows (df_columns df) (df_rows df))";
        cases plz) (auto split: if_splits)
  from s assms(2) have "r \<in> set rows1" by blast
  then have "r \<in> set (zero_rows (df_columns df) (df_rows df))
      \<and> (\<exists>v. verband r = Some v \<and> v \<in> VERBAND_FILTER)"
    using f by (auto simp: filter_by_verband_def split: if_splits option.splits)
  then show ?thesis by (simp add: zero_rows_def)
qed


text \<open>
  C3: when the strict street and city pass of \<open>find_customer_by_address\<close> yields a
  candidate, the result is what the cascade selects from the strict candidates, whatever
  the scorer is and whether or not there is one: the fuzzy pass plays no part.
\<close>

theorem strict_candidates_exclude_fuzzy:
  assumes "strict_pass df a h \<noteq> []"
  shows "find_customer_by_address (Some df) fuzz a kdnr h w
           = select_candidate (df_columns df) (strict_pass df a h) (extract_plz (strip a)) h w
       \<and> find_customer_by_address (Some df) fuzz a kdnr h w
           = find_customer_by_address (Some df) None a kdnr h w"
proof -
  from assms have a: "\<not> (a = [] \<or> strip a = [])"
    by (auto simp: strict_pass_def)
  from assms a obtain rows0 where
    s: "address_subset df (extract_plz (strip a)) = Inr (Some rows0)"
    unfolding strict_pass_def
    by (cases "address_subset df (extract_plz (strip a))") (auto split: option.splits)
  from assms a s have
    p: "strict_pass df a h = strict_candidates (df_columns df) rows0 (address_key (strip a) h)"
    and n: "strict_candidates (df_columns df) rows0 (address_key (strip a) h) \<noteq> []"
    by (simp_all add: strict_pass_def)
  have "find_customer_by_address (Some df) x a kdnr h w
           = select_candidate (df_columns df) (strict_pass df a h) (extract_plz (strip a)) h w"
    for x
    unfolding find_customer_by_address_unfold p using a s n
    by (cases x) simp_all
  then show ?thesis by simp
qed

lemma fallback_first_row:
  assumes "match_by_kundennummer_fallback df k = Some m"
  shows "strip (adressnummer m) = lit ''0''
       \<or> (\<exists>r rs. hinted_rows df k = Some (r # rs) \<and> zero_rows (df_columns df) (r # rs) = []
             \<and> m = row_result (df_columns df) r)"
proof -
  from assms obtain r rs where hr: "hinted_rows df k = Some (r # rs)"
    unfolding match_by_kundennummer_fallback_def Let_def
    by (cases "hinted_rows df k"; cases "the (hinted_rows df k)") (simp_all split: if_splits)
  show ?thesis
  proof (cases "zero_rows (df_columns df) (r # rs)")
    case Nil
    with assms hr have "m = row_result (df_columns df) r"
      unfolding match_by_kundennummer_fallback_def Let_def
      by (simp split: if_splits)
    with Nil hr show ?thesis by blast
  next
    case (Cons z zs)
    with fallback_some [OF assms] hr show ?thesis by simp
  qed
qed

text \<open>
  C1, amended: a result of \<open>find_customer_by_address\<close> has an address number that is
  \<open>0\<close> once white space around it is stripped, or it is the result of the
  customer-number-hint fallback for a customer none of whose eligible rows has address
  number 0, and then it is the first eligible row of that customer.
\<close>

theorem result_address_number_zero_or_fallback:
  assumes "find_customer_by_address load_data fuzz a kdnr h w = (Inr (Some m), w')"
  shows "strip (adressnummer m) = lit ''0''
       \<or> (\<exists>df k r rs. load_data = Some df \<and> kdnr = Some k \<and> hint_fallback df kdnr = Some m
             \<and> hinted_rows df k = Some (r # rs) \<and> zero_rows (df_columns df) (r # rs) = []
             \<and> m = row_result (df_columns df) r)"
proof -
  from assms obtain df where df: "load_data = Some df"
    by (cases load_data) (simp_all add: find_customer_by_address_def)
  have fb: ?thesis if f: "hint_fallback df kdnr = Some m"
  proof -
    from f obtain k where k: "kdnr = Some k" "match_by_kundennummer_fallback df k = Some m"
      unfolding hint_fallback_def by (cases kdnr) (simp_all split: if_splits)
    from fallback_first_row [OF k(2)] k(1) f df show ?thesis by blast
  qed
  have sel: ?thesis if s: "select_candidate (df_columns df) cands plz h w = (Inr (Some m), w')"
    for cands plz
  proof -
    from select_candidate_some [OF s] obtain r where
      "m = row_result (df_columns df) r" "clean_cell (df_columns df) r ''Adressnummer'' = lit ''0''"
      by blast
    then show ?thesis using zero_row_result by blast
  qed
  note u = assms [unfolded df find_customer_by_address_unfold]
  show ?thesis
  proof (cases "a = [] \<or> strip a = []")
    case True
    with u have "hint_fallback df kdnr = Some m" by simp
    then show ?thesis by (rule fb)
  next
    case False
    show ?thesis
    proof (cases "address_subset df (extract_plz (strip a))")
      case (Inl e)
      with u False show ?thesis by simp
    next
      case (Inr x)
      show ?thesis
      proof (cases x)
        case None
        with u False Inr show ?thesis by simp
      next
        case (Some rows0)
        from u False Inr Some
        have "hint_fallback df kdnr = Some m
            \<or> (\<exists>cands. select_candidate (df_columns df) cands (extract_plz (strip a)) h w
                   = (Inr (Some m), w'))"
          by (auto split: if_splits)
        then show ?thesis using fb sel by blast
      qed
    qed
  qed
qed

text \<open>
  C10: without the fuzzy library the function returns the fallback result when the strict
  pass leaves no candidate and otherwise what the cascade selects from the strict
  candidates; a customer it returns is the fallback's or comes from a registry row whose
  street and city are contained in the address.
\<close>

theorem without_fuzz_strict_or_fallback:
  "find_customer_by_address (Some df) None a kdnr h w =
     (if a = [] \<or> strip a = [] then (Inr (hint_fallback df kdnr), w)
      else case address_subset df (extract_plz (strip a)) of
             Inl e \<Rightarrow> (Inl e, w)
           | Inr None \<Rightarrow> (Inr None, w)
           | Inr (Some rows0) \<Rightarrow>
               if strict_candidates (df_columns df) rows0 (address_key (strip a) h) = []
               then (Inr (hint_fallback df kdnr), w)
               else select_candidate (df_columns df)
                      (strict_candidates (df_columns df) rows0 (address_key (strip a) h))
                      (extract_plz (strip a)) h w)
   \<and> (\<forall>m w'. find_customer_by_address (Some df) None a kdnr h w = (Inr (Some m), w') \<longrightarrow>
          hint_fallback df kdnr = Some m
          \<or> (\<exists>r \<in> set (df_rows df).
                street_matches (normalize_address_token (cell (df_columns df) r ''Strasse''))
                  (address_key (strip a) h)
                \<and> (str_in (normalize_city (cell (df_columns df) r ''Ort'')) (address_key (strip a) h)
                    \<or> city_matches (cell (df_columns df) r ''Ort'') (address_key (strip a) h))
                \<and> m = row_result (df_columns df) r))"
proof (intro conjI allI impI)
  show "find_customer_by_address (Some df) None a kdnr h w =
     (if a = [] \<or> strip a = [] then (Inr (hint_fallback df kdnr), w)
      else case address_subset df (extract_plz (strip a)) of
             Inl e \<Rightarrow> (Inl e, w)
           | Inr None \<Rightarrow> (Inr None, w)
           | Inr (Some rows0) \<Rightarrow>
               if strict_candidates (df_columns df) rows0 (address_key (strip a) h) = []
               then (Inr (hint_fallback df kdnr), w)
               else select_candidate (df_columns df)
                      (strict_candidates (df_columns df) rows0 (address_key (strip a) h))
                      (extract_plz (strip a)) h w)"
    unfolding find_customer_by_address_unfold by (simp split: sum.splits option.splits)
next
  fix m w'
  assume r: "find_customer_by_address (Some df) None a kdnr h w = (Inr (Some m), w')"
  let ?goal = "hint_fallback df kdnr = Some m
          \<or> (\<exists>r \<in> set (df_rows df).
                street_matches (normalize_address_token (cell (df_columns df) r ''Strasse''))
                  (address_key (strip a) h)
                \<and> (str_in (normalize_city (cell (df_columns df) r ''Ort'')) (address_key (strip a) h)
                    \<or> city_matches (cell (df_columns df) r ''Ort'') (address_key (strip a) h))
                \<and> m = row_result (df_columns df) r)"
  note u = r [unfolded find_customer_by_address_unfold]
  show ?goal
  proof (cases "a = [] \<or> strip a = []")
    case True
    with u show ?thesis by simp
  next
    case False
    show ?thesis
    proof (cases "address_subset df (extract_plz (strip a))")
      case (Inl e)
      with u False show ?thesis by simp
    next
      case (Inr x)
      show ?thesis
      proof (cases x)
        case None
        with u False Inr show ?thesis by simp
      next
        case (Some rows0)
        let ?st = "strict_candidates (df_columns df) rows0 (address_key (strip a) h)"
        show ?thesis
        proof (cases "?st = []")
          case True
          with u False Inr Some show ?thesis by simp
        next
          case ne: False
          with u False Inr Some
          have "select_candidate (df_columns df) ?st (extract_plz (strip a)) h w
                  = (Inr (Some m), w')" by simp
          from select_candidate_some [OF this] obtain r where
            rin: "r \<in> set ?st" and m: "m = row_result (df_columns df) r" by blast
          from strict_candidates_mem [OF rin] have
            p: "r \<in> set rows0"
              "street_matches (normalize_address_token (cell (df_columns df) r ''Strasse''))
                  (address_key (strip a) h)"
              "str_in (normalize_city (cell (df_columns df) r ''Ort'')) (address_key (strip a) h)
                 \<or> city_matches (cell (df_columns df) r ''Ort'') (address_key (strip a) h)"
            by simp_all
          from address_subset_mem [OF Inr [unfolded Some] p(1)] have "r \<in> set (df_rows df)"
            by simp
          with p m show ?thesis by blast
        qed
      qed
    qed
  qed
qed

lemma demo_strict_length:
  "length (strict_pass demo_frame (lit ''Hauptstr 5 Muenchen'') no_hints) = 1"
  by code_simp

lemma demo_with_scorer:
  "find_customer_by_address (Some demo_frame) (Some all_similar) (lit ''Hauptstr 5 Muenchen'')
     None no_hints None
   = (Inr (Some \<lparr> kundennummer = lit ''27566'', adressnummer = lit ''0'', tour = lit ''G2'' \<rparr>),
      None)"
  by code_simp

lemma demo_without_scorer:
  "find_customer_by_address (Some demo_frame) None (lit ''Hauptstr 5 Muenchen'')
     None no_hints None
   = (Inr (Some \<lparr> kundennummer = lit ''27566'', adressnummer = lit ''0'', tour = lit ''G2'' \<rparr>),
      None)"
  by code_simp

lemma demo_hint_only:
  "find_customer_by_address (Some demo_frame) None [] (Some (lit ''123'')) no_hints None
   = (Inr (Some \<lparr> kundennummer = lit ''123'', adressnummer = lit ''1'', tour = lit ''T1'' \<rparr>),
      None)"
  by code_simp

lemma demo_hint_after_no_candidate:
  "find_customer_by_address (Some demo_frame) None (lit ''Unbekannt 9, 99999 Nirgendwo'')
     (Some (lit ''123'')) no_hints None
   = (Inr (Some \<lparr> kundennummer = lit ''123'', adressnummer = lit ''1'', tour = lit ''T1'' \<rparr>),
      None)"
  by code_simp

lemma demo_padded:
  "find_customer_by_address (Some demo_frame_ulm) None (lit ''Ringweg 7, 89073 Ulm'')
     None no_hints None
   = (Inr (Some \<lparr> kundennummer = lit ''555'', adressnummer = lit '' 0'', tour = lit ''U1'' \<rparr>),
      None)"
  by code_simp

theorem strict_candidates_exclude_fuzzy_witness:
  "strict_pass demo_frame (lit ''Hauptstr 5 Muenchen'') no_hints \<noteq> []
   \<and> find_customer_by_address (Some demo_frame) (Some all_similar) (lit ''Hauptstr 5 Muenchen'')
        None no_hints None
      = select_candidate (df_columns demo_frame)
          (strict_pass demo_frame (lit ''Hauptstr 5 Muenchen'') no_hints)
          (extract_plz (strip (lit ''Hauptstr 5 Muenchen''))) no_hints None
   \<and> find_customer_by_address (Some demo_frame) (Some all_similar) (lit ''Hauptstr 5 Muenchen'')
        None no_hints None
      = find_customer_by_address (Some demo_frame) None (lit ''Hauptstr 5 Muenchen'')
        None no_hints None
   \<and> find_customer_by_address (Some demo_frame) (Some all_similar) (lit ''Hauptstr 5 Muenchen'')
        None no_hints None
      = (Inr (Some \<lparr> kundennummer = lit ''27566'', adressnummer = lit ''0'', tour = lit ''G2'' \<rparr>),
         None)"
proof -
  have ne: "strict_pass demo_frame (lit ''Hauptstr 5 Muenchen'') no_hints \<noteq> []"
    using demo_strict_length by auto
  note w = strict_candidates_exclude_fuzzy [OF ne, of "Some all_similar" None None]
  show ?thesis
    by (intro conjI ne w [THEN conjunct1] w [THEN conjunct2] demo_with_scorer)
qed

text \<open>
  C1, as stated: every result has the address number \<open>0\<close>. It fails on the
  customer-number-hint fallback, which returns the first eligible row of the hinted
  customer when none has address number 0: customer 123 has only address number 1, and
  is returned with it, for a missing address and for an address that matches nothing.
  It also fails on the address path for a cell written \<open>" 0"\<close>: the check strips it, the
  result does not.
\<close>

theorem fallback_returns_other_address_number:
  "find_customer_by_address (Some demo_frame) None [] (Some (lit ''123'')) no_hints None
     = (Inr (Some \<lparr> kundennummer = lit ''123'', adressnummer = lit ''1'', tour = lit ''T1'' \<rparr>),
        None)
   \<and> find_customer_by_address (Some demo_frame) None (lit ''Unbekannt 9, 99999 Nirgendwo'')
       (Some (lit ''123'')) no_hints None
     = (Inr (Some \<lparr> kundennummer = lit ''123'', adressnummer = lit ''1'', tour = lit ''T1'' \<rparr>),
        None)
   \<and> find_customer_by_address (Some demo_frame_ulm) None (lit ''Ringweg 7, 89073 Ulm'')
       None no_hints None
     = (Inr (Some \<lparr> kundennummer = lit ''555'', adressnummer = lit '' 0'', tour = lit ''U1'' \<rparr>),
        None)
   \<and> lit ''1'' \<noteq> lit ''0'' \<and> lit '' 0'' \<noteq> lit ''0''"
  by (intro conjI demo_hint_only demo_hint_after_no_candidate demo_padded) (simp_all add: lit_def)

lemma demo_strip_zero: "strip (lit ''0'') = lit ''0''"
  by code_simp

lemma demo_strip_one: "strip (lit ''1'') \<noteq> lit ''0''"
  by code_simp

theorem result_address_number_witness:
  "find_customer_by_address (Some demo_frame) None (lit ''Hauptstr 5 Muenchen'')
     None no_hints None
   = (Inr (Some \<lparr> kundennummer = lit ''27566'', adressnummer = lit ''0'', tour = lit ''G2'' \<rparr>),
      None)
   \<and> strip (lit ''0'') = lit ''0''
   \<and> find_customer_by_address (Some demo_frame) None [] (Some (lit ''123'')) no_hints None
     = (Inr (Some \<lparr> kundennummer = lit ''123'', adressnummer = lit ''1'', tour = lit ''T1'' \<rparr>),
        None)
   \<and> (\<exists>r rs. hinted_rows demo_frame (lit ''123'') = Some (r # rs)
         \<and> zero_rows (df_columns demo_frame) (r # rs) = []
         \<and> \<lparr> kundennummer = lit ''123'', adressnummer = lit ''1'', tour = lit ''T1'' \<rparr>
             = row_result (df_columns demo_frame) r)"
proof -
  from result_address_number_zero_or_fallback [OF demo_hint_only] demo_strip_one
  have "\<exists>r rs. hinted_rows demo_frame (lit ''123'') = Some (r # rs)
         \<and> zero_rows (df_columns demo_frame) (r # rs) = []
         \<and> \<lparr> kundennummer = lit ''123'', adressnummer = lit ''1'', tour = lit ''T1'' \<rparr>
             = row_result (df_columns demo_frame) r"
    by auto
  moreover from result_address_number_zero_or_fallback [OF demo_without_scorer]
  have "strip (lit ''0'') = lit ''0''" by (simp add: demo_strip_zero)
  ultimately show ?thesis
    by (intro conjI demo_without_scorer demo_hint_only)
qed

theorem without_fuzz_witness:
  "find_customer_by_address (Some demo_frame) None (lit ''Hauptstr 5 Muenchen'')
     None no_hints None
   = (Inr (Some \<lparr> kundennummer = lit ''27566'', adressnummer = lit ''0'', tour = lit ''G2'' \<rparr>),
      None)
   \<and> (hint_fallback demo_frame None
        = Some \<lparr> kundennummer = lit ''27566'', adressnummer = lit ''0'', tour = lit ''G2'' \<rparr>
      \<or> (\<exists>r \<in> set (df_rows demo_frame).
            street_matches (normalize_address_token (cell (df_columns demo_frame) r ''Strasse''))
              (address_key (strip (lit ''Hauptstr 5 Muenchen'')) no_hints)
            \<and> (str_in (normalize_city (cell (df_columns demo_frame) r ''Ort''))
                  (address_key (strip (lit ''Hauptstr 5 Muenchen'')) no_hints)
                \<or> city_matches (cell (df_columns demo_frame) r ''Ort'')
                     (address_key (strip (lit ''Hauptstr 5 Muenchen'')) no_hints))
            \<and> \<lparr> kundennummer = lit ''27566'', adressnummer = lit ''0'', tour = lit ''G2'' \<rparr>
                = row_result (df_columns demo_frame) r))"
proof -
  note w = without_fuzz_strict_or_fallback
    [of demo_frame "lit ''Hauptstr 5 Muenchen''" None no_hints None, THEN conjunct2,
     THEN spec, THEN spec, THEN mp, OF demo_without_scorer]
  show ?thesis by (intro conjI demo_without_scorer w)
qed

section \<open>The AI-assisted fallback (C5)\<close>















end
